theory Spec2Isabelle
  imports Complex_Main
begin

section \<open>JavaScript values\<close>

text \<open>
  The dashboard module keeps one module-level \<^verbatim>\<open>state\<close> object and mutates it from
  \<^verbatim>\<open>addLog\<close>, \<^verbatim>\<open>updateStatus\<close>, \<^verbatim>\<open>updateStrategyConfig\<close> and
  \<^verbatim>\<open>recordStrategyDecision\<close>; \<^verbatim>\<open>updateRuntimeSettings\<close> mutates the shared
  \<^verbatim>\<open>CONFIG\<close> object. The functions are embedded below with the state passed explicitly.

  A JavaScript number is a finite value, one of the two infinities, or NaN. A finite value is
  a rational (every double is one). The operators follow ECMAScript on the special values; the
  sign of zero is not modelled.
\<close>

datatype jsnum = Finite rat | PosInfinity | NegInfinity | NaN

text \<open>
  An arithmetic operation on doubles returns its exact result rounded to a double, or an
  infinity when the result is out of range. The rounding is a parameter \<open>rnd\<close> of the model, so
  that every theorem holds whatever it rounds to. All that is fixed of it is that it is exact
  where IEEE-754 binary64 is: on \<open>k / 2 ^ n\<close> for an integer \<open>k\<close> of magnitude at most
  \<open>2 ^ 53\<close> and \<open>n\<close> at most 1074, which are doubles.
\<close>

typedef rounding =
  "{f :: rat \<Rightarrow> jsnum.
      \<forall>k n. \<bar>k\<bar> \<le> 2 ^ 53 \<and> n \<le> 1074 \<longrightarrow> f (of_int k / 2 ^ n) = Finite (of_int k / 2 ^ n)}"
  morphisms roundTo toRounding
  by (rule exI [of _ Finite]) simp

text \<open>The relational operators \<^verbatim>\<open><\<close> and \<^verbatim>\<open><=\<close>; a comparison with NaN is false.\<close>

fun js_lt :: "jsnum \<Rightarrow> jsnum \<Rightarrow> bool" where
  "js_lt NaN _ = False"
| "js_lt _ NaN = False"
| "js_lt (Finite x) (Finite y) = (x < y)"
| "js_lt (Finite _) PosInfinity = True"
| "js_lt (Finite _) NegInfinity = False"
| "js_lt PosInfinity _ = False"
| "js_lt NegInfinity NegInfinity = False"
| "js_lt NegInfinity _ = True"

fun js_le :: "jsnum \<Rightarrow> jsnum \<Rightarrow> bool" where
  "js_le NaN _ = False"
| "js_le _ NaN = False"
| "js_le a b = (a = b \<or> js_lt a b)"

definition js_gt :: "jsnum \<Rightarrow> jsnum \<Rightarrow> bool" where
  "js_gt a b = js_lt b a"

definition js_ge :: "jsnum \<Rightarrow> jsnum \<Rightarrow> bool" where
  "js_ge a b = js_le b a"

text \<open>Binary \<^verbatim>\<open>-\<close>, \<^verbatim>\<open>*\<close> and \<^verbatim>\<open>/\<close> on numbers: the exact result of two finite operands
  is rounded.\<close>

fun js_sub :: "rounding \<Rightarrow> jsnum \<Rightarrow> jsnum \<Rightarrow> jsnum" where
  "js_sub rnd NaN _ = NaN"
| "js_sub rnd _ NaN = NaN"
| "js_sub rnd (Finite x) (Finite y) = roundTo rnd (x - y)"
| "js_sub rnd (Finite _) PosInfinity = NegInfinity"
| "js_sub rnd (Finite _) NegInfinity = PosInfinity"
| "js_sub rnd PosInfinity PosInfinity = NaN"
| "js_sub rnd PosInfinity _ = PosInfinity"
| "js_sub rnd NegInfinity NegInfinity = NaN"
| "js_sub rnd NegInfinity _ = NegInfinity"

definition js_negate :: "jsnum \<Rightarrow> jsnum" where
  "js_negate a = (case a of Finite x \<Rightarrow> Finite (- x) | PosInfinity \<Rightarrow> NegInfinity
     | NegInfinity \<Rightarrow> PosInfinity | NaN \<Rightarrow> NaN)"

text \<open>An infinity scaled by a finite factor: zero gives NaN, a negative factor flips the sign.\<close>

definition scale_infinity :: "jsnum \<Rightarrow> rat \<Rightarrow> jsnum" where
  "scale_infinity a y = (if y = 0 then NaN else if 0 < y then a else js_negate a)"

fun js_mul :: "rounding \<Rightarrow> jsnum \<Rightarrow> jsnum \<Rightarrow> jsnum" where
  "js_mul rnd NaN _ = NaN"
| "js_mul rnd _ NaN = NaN"
| "js_mul rnd (Finite x) (Finite y) = roundTo rnd (x * y)"
| "js_mul rnd (Finite x) PosInfinity = scale_infinity PosInfinity x"
| "js_mul rnd (Finite x) NegInfinity = scale_infinity NegInfinity x"
| "js_mul rnd PosInfinity (Finite y) = scale_infinity PosInfinity y"
| "js_mul rnd NegInfinity (Finite y) = scale_infinity NegInfinity y"
| "js_mul rnd PosInfinity PosInfinity = PosInfinity"
| "js_mul rnd PosInfinity NegInfinity = NegInfinity"
| "js_mul rnd NegInfinity PosInfinity = NegInfinity"
| "js_mul rnd NegInfinity NegInfinity = PosInfinity"

text \<open>
  Division. A zero divisor is taken to be the positive zero (the sign of zero is not modelled):
  a non-zero dividend gives an infinity of its own sign and \<^verbatim>\<open>0/0\<close> is NaN.
\<close>

fun js_div :: "rounding \<Rightarrow> jsnum \<Rightarrow> jsnum \<Rightarrow> jsnum" where
  "js_div rnd NaN _ = NaN"
| "js_div rnd _ NaN = NaN"
| "js_div rnd (Finite x) (Finite y) =
     (if y = 0 then (if x = 0 then NaN else if 0 < x then PosInfinity else NegInfinity)
      else roundTo rnd (x / y))"
| "js_div rnd (Finite _) PosInfinity = Finite 0"
| "js_div rnd (Finite _) NegInfinity = Finite 0"
| "js_div rnd PosInfinity (Finite y) = (if 0 \<le> y then PosInfinity else NegInfinity)"
| "js_div rnd NegInfinity (Finite y) = (if 0 \<le> y then NegInfinity else PosInfinity)"
| "js_div rnd PosInfinity _ = NaN"
| "js_div rnd NegInfinity _ = NaN"

text \<open>
  \<^verbatim>\<open>Math.round\<close> rounds to the nearest integer, a tie towards positive infinity;
  \<^verbatim>\<open>Math.floor\<close>, \<^verbatim>\<open>Math.abs\<close>; \<^verbatim>\<open>Math.max\<close> and \<^verbatim>\<open>Math.min\<close> of two
  numbers return NaN as soon as one argument is NaN. These are exact on doubles: the nearest
  integer and the floor of a double are doubles.
\<close>

definition Math_round :: "jsnum \<Rightarrow> jsnum" where
  "Math_round a = (case a of Finite x \<Rightarrow> Finite (of_int \<lfloor>x + 1 / 2\<rfloor>) | _ \<Rightarrow> a)"

definition Math_floor :: "jsnum \<Rightarrow> jsnum" where
  "Math_floor a = (case a of Finite x \<Rightarrow> Finite (of_int \<lfloor>x\<rfloor>) | _ \<Rightarrow> a)"

definition Math_abs :: "jsnum \<Rightarrow> jsnum" where
  "Math_abs a = (case a of Finite x \<Rightarrow> Finite \<bar>x\<bar> | NegInfinity \<Rightarrow> PosInfinity | _ \<Rightarrow> a)"

definition Math_max :: "jsnum \<Rightarrow> jsnum \<Rightarrow> jsnum" where
  "Math_max a b = (if a = NaN \<or> b = NaN then NaN else if js_lt a b then b else a)"

definition Math_min :: "jsnum \<Rightarrow> jsnum \<Rightarrow> jsnum" where
  "Math_min a b = (if a = NaN \<or> b = NaN then NaN else if js_lt b a then b else a)"

text \<open>
  The values that are stored in the properties of the objects handled here: the primitive
  values. An array or an object as the value of a property is left out.
\<close>

datatype jsval = JUndefined | JNull | JBool bool | JNum jsnum | JStr string

text \<open>An object is a finite map from property names to values; reading an absent property
  gives \<^verbatim>\<open>undefined\<close>.\<close>

type_synonym jsobj = "string \<Rightarrow> jsval option"

definition getProp :: "jsobj \<Rightarrow> string \<Rightarrow> jsval" where
  "getProp obj k = (case obj k of None \<Rightarrow> JUndefined | Some v \<Rightarrow> v)"

text \<open>An argument of one of the exported functions: a primitive, or an object given by its own
  enumerable properties (an array is the object of its indices).\<close>

datatype jsarg = Prim jsval | Obj jsobj

text \<open>ToBoolean: what \<^verbatim>\<open>!x\<close>, \<^verbatim>\<open>x || y\<close> and \<^verbatim>\<open>if (x)\<close> test.\<close>

fun truthy :: "jsval \<Rightarrow> bool" where
  "truthy JUndefined = False"
| "truthy JNull = False"
| "truthy (JBool b) = b"
| "truthy (JNum n) = (n \<noteq> Finite 0 \<and> n \<noteq> NaN)"
| "truthy (JStr s) = (s \<noteq> [])"

definition js_or :: "jsval \<Rightarrow> jsval \<Rightarrow> jsval" where
  "js_or a b = (if truthy a then a else b)"

text \<open>\<^verbatim>\<open>x || d\<close> where \<^verbatim>\<open>x\<close> is known to be a number.\<close>

definition num_or :: "jsnum \<Rightarrow> jsnum \<Rightarrow> jsnum" where
  "num_or a d = (if truthy (JNum a) then a else d)"

text \<open>
  \<^verbatim>\<open>Number(v)\<close> and \<^verbatim>\<open>String(v)\<close>. The conversion of a string to a number and of a number to
  a string are built-ins of the language; they are parameters \<open>strToNum\<close> and \<open>numToStr\<close> of
  the model, so that every theorem holds whatever they return.
\<close>

fun ToNumber :: "(string \<Rightarrow> jsnum) \<Rightarrow> jsval \<Rightarrow> jsnum" where
  "ToNumber strToNum JUndefined = NaN"
| "ToNumber strToNum JNull = Finite 0"
| "ToNumber strToNum (JBool b) = (if b then Finite 1 else Finite 0)"
| "ToNumber strToNum (JNum n) = n"
| "ToNumber strToNum (JStr s) = strToNum s"

fun ToString :: "(jsnum \<Rightarrow> string) \<Rightarrow> jsval \<Rightarrow> string" where
  "ToString numToStr JUndefined = ''undefined''"
| "ToString numToStr JNull = ''null''"
| "ToString numToStr (JBool b) = (if b then ''true'' else ''false'')"
| "ToString numToStr (JNum n) = numToStr n"
| "ToString numToStr (JStr s) = s"

text \<open>\<^verbatim>\<open>Number.isFinite(v)\<close> does not convert: it holds of finite numbers only.\<close>

fun num_isFinite :: "jsnum \<Rightarrow> bool" where
  "num_isFinite (Finite _) = True"
| "num_isFinite _ = False"

fun Number_isFinite :: "jsval \<Rightarrow> bool" where
  "Number_isFinite (JNum n) = num_isFinite n"
| "Number_isFinite _ = False"

text \<open>Strict inequality \<^verbatim>\<open>a !== b\<close> of primitives: NaN differs from itself.\<close>

definition strict_neq :: "jsval \<Rightarrow> jsval \<Rightarrow> bool" where
  "strict_neq a b = (a \<noteq> b \<or> a = JNum NaN)"

section \<open>The state of the dashboard module\<close>

text \<open>
  \<^verbatim>\<open>state.status\<close> is an object that \<^verbatim>\<open>Object.assign\<close> extends with whatever the caller
  passes, so it is a property map. \<^verbatim>\<open>state.baseline\<close> and \<^verbatim>\<open>state.strategy\<close> are only
  written by the code below, which fixes the type of each field: \<^verbatim>\<open>gold\<close> and \<^verbatim>\<open>exp\<close> of
  the baseline are \<^verbatim>\<open>null\<close> (\<open>None\<close>) or a number.
\<close>

record baseline =
  base_gold :: "jsnum option"
  base_exp :: "jsnum option"
  base_ready :: bool
  base_key :: string

text \<open>
  \<^verbatim>\<open>lastDecision\<close> is \<^verbatim>\<open>null\<close> or a reference to an object of the store below: the
  object is handed out by \<^verbatim>\<open>getStrategyConfig\<close>, so its identity matters.
\<close>

record strategy =
  mode :: string
  manualSeedId :: jsnum
  manualSeedName :: string
  source :: string
  updatedAt :: jsnum
  lastDecision :: "nat option"

record logItem =
  log_id :: nat
  log_ts :: string
  log_level :: jsval
  log_message :: string

text \<open>
  The objects that leave the module (the decision object and the object literal returned by
  \<^verbatim>\<open>getStrategyConfig\<close>) live in a store: a map from addresses to objects whose properties
  hold a primitive value or a reference. \<open>nextAddr\<close> is the next unused address.
\<close>

datatype hval = Val jsval | Ref nat

type_synonym hobj = "string \<Rightarrow> hval option"

text \<open>
  \<^verbatim>\<open>state.startedAt\<close> is read by the HTTP handler only, to compute the \<^verbatim>\<open>uptimeSec\<close> that
  it passes to \<^verbatim>\<open>buildMetrics\<close>; it is not part of the record. \<open>nextLogId\<close> is kept as an
  exact natural number.
\<close>

record state =
  status :: jsobj
  baseline :: baseline
  strategy :: strategy
  logs :: "logItem list"
  nextLogId :: nat
  heap :: "nat \<Rightarrow> hobj option"
  nextAddr :: nat

definition initial_state :: state where
  "initial_state =
     \<lparr>status = [''platform'' \<mapsto> JStr ''qq'', ''name'' \<mapsto> JStr [],
                ''level'' \<mapsto> JNum (Finite 0), ''gold'' \<mapsto> JNum (Finite 0),
                ''exp'' \<mapsto> JNum (Finite 0)],
      baseline = \<lparr>base_gold = None, base_exp = None, base_ready = False, base_key = []\<rparr>,
      strategy = \<lparr>mode = ''normalFert'', manualSeedId = Finite 0, manualSeedName = [],
                  source = ''auto'', updatedAt = Finite 0, lastDecision = None\<rparr>,
      logs = [], nextLogId = 1, heap = Map.empty, nextAddr = 0\<rparr>"

section \<open>The log buffer\<close>

text \<open>
  \<^verbatim>\<open>MAX_LOGS\<close> is \<^verbatim>\<open>Math.max(0, Number(process.env.DASHBOARD_MAX_LOGS || 120))\<close>, fixed when
  the module is loaded: a parameter. \<^verbatim>\<open>nowIso()\<close> is the parameter \<open>ts\<close>.
\<close>

definition addLog :: "(jsnum \<Rightarrow> string) \<Rightarrow> jsnum \<Rightarrow> string \<Rightarrow> jsval \<Rightarrow> jsval \<Rightarrow> state \<Rightarrow> state" where
  "addLog numToStr MAX_LOGS ts level message st =
     (if js_le MAX_LOGS (Finite 0) then st
      else
        let item = \<lparr>log_id = nextLogId st, log_ts = ts, log_level = level,
                    log_message = ToString numToStr (js_or message (JStr []))\<rparr>;
            pushed = logs st @ [item]
        in st\<lparr>nextLogId := Suc (nextLogId st),
              logs := (if js_gt (Finite (of_nat (length pushed))) MAX_LOGS then tl pushed
                       else pushed)\<rparr>)"

definition getLogsSince :: "jsval \<Rightarrow> state \<Rightarrow> logItem list" where
  "getLogsSince sinceId st =
     (case sinceId of
        JNum n \<Rightarrow>
          (if \<not> num_isFinite n \<or> js_le n (Finite 0) then logs st
           else filter (\<lambda>item. js_gt (Finite (of_nat (log_id item))) n) (logs st))
      | _ \<Rightarrow> logs st)"

text \<open>A run of \<^verbatim>\<open>addLog\<close> calls, each given by its timestamp, level and message.\<close>

fun addLogs :: "(jsnum \<Rightarrow> string) \<Rightarrow> jsnum \<Rightarrow> (string \<times> jsval \<times> jsval) list \<Rightarrow> state \<Rightarrow> state" where
  "addLogs numToStr MAX_LOGS [] st = st"
| "addLogs numToStr MAX_LOGS ((ts, level, message) # rest) st =
     addLogs numToStr MAX_LOGS rest (addLog numToStr MAX_LOGS ts level message st)"

section \<open>Status updates and the baseline\<close>

definition loginReady :: "(string \<Rightarrow> jsnum) \<Rightarrow> (jsnum \<Rightarrow> string) \<Rightarrow> jsobj \<Rightarrow> bool" where
  "loginReady strToNum numToStr st_status =
     (ToString numToStr (js_or (getProp st_status ''name'') (JStr [])) \<noteq> [] \<or>
      js_gt (ToNumber strToNum (js_or (getProp st_status ''level'') (JNum (Finite 0)))) (Finite 0))"

definition identityKey :: "(string \<Rightarrow> jsnum) \<Rightarrow> (jsnum \<Rightarrow> string) \<Rightarrow> jsobj \<Rightarrow> string" where
  "identityKey strToNum numToStr st_status =
     (if loginReady strToNum numToStr st_status
      then ToString numToStr (js_or (getProp st_status ''platform'') (JStr [])) @ '':'' @
           ToString numToStr (js_or (getProp st_status ''name'') (JStr []))
      else [])"

text \<open>The first \<^verbatim>\<open>if\<close> of \<^verbatim>\<open>updateStatus\<close>: a ready baseline of another identity is dropped.\<close>

definition invalidateBaseline :: "string \<Rightarrow> baseline \<Rightarrow> baseline" where
  "invalidateBaseline idKey b =
     (if base_ready b \<and> idKey \<noteq> [] \<and> base_key b \<noteq> [] \<and> idKey \<noteq> base_key b
      then b\<lparr>base_ready := False, base_gold := None, base_exp := None, base_key := []\<rparr>
      else b)"

definition identityChanged :: "jsobj \<Rightarrow> jsobj \<Rightarrow> bool" where
  "identityChanged prev cur =
     (strict_neq (getProp prev ''name'') (getProp cur ''name'') \<or>
      strict_neq (getProp prev ''platform'') (getProp cur ''platform''))"

text \<open>The second \<^verbatim>\<open>if\<close>: its condition, and the baseline it writes.\<close>

definition anchorCondition :: "bool \<Rightarrow> bool \<Rightarrow> jsobj \<Rightarrow> baseline \<Rightarrow> bool" where
  "anchorCondition ready_login changed cur b =
     (\<not> base_ready b \<and> ready_login \<and>
      (changed \<or> Number_isFinite (getProp cur ''exp'') \<or> Number_isFinite (getProp cur ''gold'')))"

definition finiteOrZero :: "jsval \<Rightarrow> jsnum" where
  "finiteOrZero v = (case v of JNum n \<Rightarrow> (if num_isFinite n then n else Finite 0) | _ \<Rightarrow> Finite 0)"

definition anchorBaseline :: "string \<Rightarrow> jsobj \<Rightarrow> baseline \<Rightarrow> baseline" where
  "anchorBaseline idKey cur b =
     b\<lparr>base_gold := Some (finiteOrZero (getProp cur ''gold'')),
       base_exp := Some (finiteOrZero (getProp cur ''exp'')),
       base_ready := True, base_key := idKey\<rparr>"

definition updateStatus :: "(string \<Rightarrow> jsnum) \<Rightarrow> (jsnum \<Rightarrow> string) \<Rightarrow> jsarg \<Rightarrow> state \<Rightarrow> state" where
  "updateStatus strToNum numToStr partial st =
     (case partial of
        Prim _ \<Rightarrow> st
      | Obj props \<Rightarrow>
          let prev = status st;
              cur = status st ++ props;
              ready_login = loginReady strToNum numToStr cur;
              idKey = identityKey strToNum numToStr cur;
              b1 = invalidateBaseline idKey (baseline st);
              changed = identityChanged prev cur;
              b2 = (if anchorCondition ready_login changed cur b1
                    then anchorBaseline idKey cur b1 else b1)
          in st\<lparr>status := cur, baseline := b2\<rparr>)"

section \<open>Metrics\<close>

record metrics =
  expGain :: jsnum
  goldGain :: jsnum
  expPerHour :: jsnum
  goldPerHour :: jsnum
  rateReady :: bool
  rateWindowSec :: jsnum
  expCurrent :: jsnum
  expNeeded :: jsnum
  expProgress :: jsnum
  goldRateProgress :: jsnum

definition RATE_MIN_WINDOW_SEC :: jsnum where
  "RATE_MIN_WINDOW_SEC = Finite 120"

text \<open>\<^verbatim>\<open>state.baseline.ready && state.baseline.exp !== null ? state.baseline.exp : exp\<close>\<close>

definition baseOr :: "bool \<Rightarrow> jsnum option \<Rightarrow> jsnum \<Rightarrow> jsnum" where
  "baseOr ready_base anchored cur =
     (case anchored of Some a \<Rightarrow> (if ready_base then a else cur) | None \<Rightarrow> cur)"

text \<open>
  \<^verbatim>\<open>getLevelExpProgress\<close> is imported from \<^verbatim>\<open>./gameConfig\<close>, which is not part of the
  sources at hand: it is a parameter, a function from the level and the experience to the
  object it returns, whose properties \<^verbatim>\<open>needed\<close> and \<^verbatim>\<open>current\<close> are read.
\<close>

text \<open>\<^verbatim>\<open>Number(state.status[k]) || 0\<close>\<close>

definition statusNumber :: "(string \<Rightarrow> jsnum) \<Rightarrow> state \<Rightarrow> string \<Rightarrow> jsnum" where
  "statusNumber strToNum st k = num_or (ToNumber strToNum (getProp (status st) k)) (Finite 0)"

definition buildMetrics ::
  "rounding \<Rightarrow> (string \<Rightarrow> jsnum) \<Rightarrow> (jsnum \<Rightarrow> jsnum \<Rightarrow> jsobj) \<Rightarrow> jsnum \<Rightarrow> state \<Rightarrow>
   metrics" where
  "buildMetrics rnd strToNum getLevelExpProgress uptimeSec st =
     (let level = statusNumber strToNum st ''level'';
          cur_exp = statusNumber strToNum st ''exp'';
          cur_gold = statusNumber strToNum st ''gold'';
          baseExp = baseOr (base_ready (baseline st)) (base_exp (baseline st)) cur_exp;
          baseGold = baseOr (base_ready (baseline st)) (base_gold (baseline st)) cur_gold;
          gain_exp = js_sub rnd cur_exp baseExp;
          gain_gold = js_sub rnd cur_gold baseGold;
          progress = getLevelExpProgress level cur_exp;
          needed = num_or (ToNumber strToNum (getProp progress ''needed'')) (Finite 1);
          current = num_or (ToNumber strToNum (getProp progress ''current'')) (Finite 0);
          ready_rate = js_ge uptimeSec RATE_MIN_WINDOW_SEC;
          perHourExp = (if ready_rate
                        then Math_round (js_div rnd gain_exp (js_div rnd uptimeSec (Finite 3600)))
                        else Finite 0);
          perHourGold = (if ready_rate
                         then Math_round
                                (js_div rnd gain_gold (js_div rnd uptimeSec (Finite 3600)))
                         else Finite 0)
      in \<lparr>expGain = gain_exp,
          goldGain = gain_gold,
          expPerHour = perHourExp,
          goldPerHour = perHourGold,
          rateReady = ready_rate,
          rateWindowSec = RATE_MIN_WINDOW_SEC,
          expCurrent = current,
          expNeeded = needed,
          expProgress =
            Math_max (Finite 0)
              (Math_min (Finite 100)
                 (Math_round (js_mul rnd (js_div rnd current needed) (Finite 100)))),
          goldRateProgress =
            Math_max (Finite 0)
              (Math_min (Finite 100)
                 (Math_round
                    (js_mul rnd (js_div rnd (Math_abs perHourGold) (Finite 30000))
                       (Finite 100))))\<rparr>)"

section \<open>The strategy store\<close>

text \<open>The object literal that \<^verbatim>\<open>getStrategyConfig\<close> builds from \<^verbatim>\<open>state.strategy\<close>.\<close>

definition strategySnapshot :: "strategy \<Rightarrow> hobj" where
  "strategySnapshot s =
     [''mode'' \<mapsto> Val (JStr (mode s)),
      ''manualSeedId'' \<mapsto> Val (JNum (num_or (manualSeedId s) (Finite 0))),
      ''manualSeedName'' \<mapsto> Val (js_or (JStr (manualSeedName s)) (JStr [])),
      ''source'' \<mapsto> Val (js_or (JStr (source s)) (JStr ''auto'')),
      ''updatedAt'' \<mapsto> Val (JNum (num_or (updatedAt s) (Finite 0))),
      ''lastDecision'' \<mapsto> (case lastDecision s of Some a \<Rightarrow> Ref a | None \<Rightarrow> Val JNull)]"

text \<open>The literal is a new object of the store; its address is returned.\<close>

definition getStrategyConfig :: "state \<Rightarrow> nat \<times> state" where
  "getStrategyConfig st =
     (nextAddr st,
      st\<lparr>heap := (heap st)(nextAddr st \<mapsto> strategySnapshot (strategy st)),
         nextAddr := Suc (nextAddr st)\<rparr>)"

definition applyMode :: "jsobj \<Rightarrow> strategy \<Rightarrow> strategy" where
  "applyMode patch s =
     (case getProp patch ''mode'' of
        JStr m \<Rightarrow> (if m = ''normalFert'' \<or> m = ''noFert'' then s\<lparr>mode := m\<rparr> else s)
      | _ \<Rightarrow> s)"

definition applyClearManual :: "jsobj \<Rightarrow> strategy \<Rightarrow> strategy" where
  "applyClearManual patch s =
     (if truthy (getProp patch ''clearManual'')
      then s\<lparr>manualSeedId := Finite 0, manualSeedName := [], source := ''auto''\<rparr>
      else s)"

definition applyManualSeed ::
  "(string \<Rightarrow> jsnum) \<Rightarrow> (jsnum \<Rightarrow> string) \<Rightarrow> jsobj \<Rightarrow> strategy \<Rightarrow> strategy" where
  "applyManualSeed strToNum numToStr patch s =
     (if strict_neq (getProp patch ''manualSeedId'') JUndefined
      then
        let sid = num_or (ToNumber strToNum (getProp patch ''manualSeedId'')) (Finite 0);
            s1 = s\<lparr>manualSeedId := sid\<rparr>
        in if js_gt sid (Finite 0)
           then s1\<lparr>source := ''manual'',
                   manualSeedName :=
                     ToString numToStr
                       (js_or (js_or (getProp patch ''manualSeedName'') (JStr (manualSeedName s1)))
                          (JStr []))\<rparr>
           else s1
      else s)"

text \<open>\<^verbatim>\<open>Date.now()\<close> is the parameter \<open>now\<close>.\<close>

definition updateStrategyConfig ::
  "(string \<Rightarrow> jsnum) \<Rightarrow> (jsnum \<Rightarrow> string) \<Rightarrow> jsnum \<Rightarrow> jsarg \<Rightarrow> state \<Rightarrow> nat \<times> state" where
  "updateStrategyConfig strToNum numToStr now patch st =
     (case patch of
        Prim _ \<Rightarrow> getStrategyConfig st
      | Obj p \<Rightarrow>
          getStrategyConfig
            (st\<lparr>strategy :=
                  (applyManualSeed strToNum numToStr p
                     (applyClearManual p (applyMode p (strategy st))))\<lparr>updatedAt := now\<rparr>\<rparr>))"

text \<open>
  The own enumerable properties that \<^verbatim>\<open>{...(decision || {})}\<close> copies: those of an object;
  the characters of a string under their decimal indices; none for another primitive.
\<close>

fun showNat :: "nat \<Rightarrow> string" where
  "showNat n =
     (if n < 10 then [''0123456789'' ! n]
      else showNat (n div 10) @ [''0123456789'' ! (n mod 10)])"

definition stringProps :: "string \<Rightarrow> jsobj" where
  "stringProps s = map_of (zip (map showNat [0..<length s]) (map (\<lambda>c. JStr [c]) s))"

fun spreadProps :: "jsarg \<Rightarrow> jsobj" where
  "spreadProps (Obj props) = props"
| "spreadProps (Prim (JStr s)) = stringProps s"
| "spreadProps (Prim _) = Map.empty"

definition recordStrategyDecision :: "jsnum \<Rightarrow> jsarg \<Rightarrow> state \<Rightarrow> state" where
  "recordStrategyDecision now decision st =
     st\<lparr>strategy := (strategy st)\<lparr>lastDecision := Some (nextAddr st)\<rparr>,
        heap := (heap st)(nextAddr st \<mapsto>
                  map_option Val \<circ> ([''at'' \<mapsto> JNum now] ++ spreadProps decision)),
        nextAddr := Suc (nextAddr st)\<rparr>"

text \<open>
  What a caller can do with an object it holds: the assignment \<^verbatim>\<open>obj[k] = v\<close> on the object
  at address \<open>a\<close>, and the assignment \<^verbatim>\<open>obj.lastDecision[k] = v\<close> through the
  \<^verbatim>\<open>lastDecision\<close> property of the object at address \<open>r\<close> (which throws, leaving the
  store as it is, when that property is not an object).
\<close>

definition assignProp :: "nat \<Rightarrow> string \<Rightarrow> hval \<Rightarrow> state \<Rightarrow> state" where
  "assignProp a k v st =
     (case heap st a of
        Some obj \<Rightarrow> st\<lparr>heap := (heap st)(a \<mapsto> obj(k \<mapsto> v))\<rparr>
      | None \<Rightarrow> st)"

definition assignThroughLastDecision :: "nat \<Rightarrow> string \<Rightarrow> hval \<Rightarrow> state \<Rightarrow> state" where
  "assignThroughLastDecision r k v st =
     (case heap st r of
        Some obj \<Rightarrow> (case obj ''lastDecision'' of Some (Ref a) \<Rightarrow> assignProp a k v st | _ \<Rightarrow> st)
      | None \<Rightarrow> st)"

text \<open>The decision object that the module itself sees behind \<^verbatim>\<open>state.strategy.lastDecision\<close>.\<close>

definition internalDecision :: "state \<Rightarrow> hobj option" where
  "internalDecision st = (case lastDecision (strategy st) of Some a \<Rightarrow> heap st a | None \<Rightarrow> None)"

text \<open>The property \<^verbatim>\<open>state.strategy.lastDecision[k]\<close>, when there is a decision object.\<close>

definition decisionProp :: "state \<Rightarrow> string \<Rightarrow> hval option" where
  "decisionProp st k = (case internalDecision st of Some obj \<Rightarrow> obj k | None \<Rightarrow> None)"

text \<open>A call of the strategy store, and the states that a sequence of calls reaches.\<close>

datatype strategyCall = Update jsnum jsarg | Record jsnum jsarg

definition strategyStep ::
  "(string \<Rightarrow> jsnum) \<Rightarrow> (jsnum \<Rightarrow> string) \<Rightarrow> strategyCall \<Rightarrow> state \<Rightarrow> state" where
  "strategyStep strToNum numToStr c st =
     (case c of
        Update now patch \<Rightarrow> snd (updateStrategyConfig strToNum numToStr now patch st)
      | Record now decision \<Rightarrow> recordStrategyDecision now decision st)"

definition strategyRun ::
  "(string \<Rightarrow> jsnum) \<Rightarrow> (jsnum \<Rightarrow> string) \<Rightarrow> strategyCall list \<Rightarrow> state \<Rightarrow> state" where
  "strategyRun strToNum numToStr cs st = fold (strategyStep strToNum numToStr) cs st"

section \<open>Runtime settings\<close>

text \<open>
  \<^verbatim>\<open>CONFIG\<close> is imported from \<^verbatim>\<open>./config\<close>, which is not part of the sources at hand. Its
  two interval properties hold numbers (milliseconds); the object is passed explicitly.
\<close>

record config =
  farmCheckInterval :: jsnum
  friendCheckInterval :: jsnum

record settings =
  farmIntervalSec :: jsnum
  friendIntervalSec :: jsnum

datatype error = invalid_farm_interval | invalid_friend_interval

definition intervalSec :: "rounding \<Rightarrow> jsnum \<Rightarrow> jsnum" where
  "intervalSec rnd ms =
     Math_max (Finite 1) (Math_round (js_div rnd (num_or ms (Finite 1000)) (Finite 1000)))"

definition getRuntimeSettings :: "rounding \<Rightarrow> config \<Rightarrow> settings" where
  "getRuntimeSettings rnd cfg =
     \<lparr>farmIntervalSec = intervalSec rnd (farmCheckInterval cfg),
      friendIntervalSec = intervalSec rnd (friendCheckInterval cfg)\<rparr>"

text \<open>\<^verbatim>\<open>patch && patch.k !== undefined\<close>: a primitive has no such property.\<close>

definition provided :: "jsarg \<Rightarrow> string \<Rightarrow> bool" where
  "provided patch k =
     (case patch of Obj p \<Rightarrow> strict_neq (getProp p k) JUndefined | Prim _ \<Rightarrow> False)"

definition patchProp :: "jsarg \<Rightarrow> string \<Rightarrow> jsval" where
  "patchProp patch k = (case patch of Obj p \<Rightarrow> getProp p k | Prim _ \<Rightarrow> JUndefined)"

text \<open>\<^verbatim>\<open>!Number.isFinite(x) || x <= 0\<close>\<close>

definition invalidInterval :: "jsnum \<Rightarrow> bool" where
  "invalidInterval x = (\<not> num_isFinite x \<or> js_le x (Finite 0))"

text \<open>
  A \<^verbatim>\<open>throw\<close> is the left injection; the configuration is returned with the result, as it
  is when the function is left.
\<close>

definition updateRuntimeSettings ::
  "rounding \<Rightarrow> (string \<Rightarrow> jsnum) \<Rightarrow> jsarg \<Rightarrow> config \<Rightarrow> (error + settings) \<times> config" where
  "updateRuntimeSettings rnd strToNum patch cfg =
     (let current = getRuntimeSettings rnd cfg;
          farm = ToNumber strToNum (patchProp patch ''farmIntervalSec'');
          friend = ToNumber strToNum (patchProp patch ''friendIntervalSec'')
      in if provided patch ''farmIntervalSec'' \<and> invalidInterval farm
         then (Inl invalid_farm_interval, cfg)
         else
           let next1 = (if provided patch ''farmIntervalSec''
                        then current\<lparr>farmIntervalSec := Math_max (Finite 1) (Math_floor farm)\<rparr>
                        else current)
           in if provided patch ''friendIntervalSec'' \<and> invalidInterval friend
              then (Inl invalid_friend_interval, cfg)
              else
                let next2 = (if provided patch ''friendIntervalSec''
                             then next1\<lparr>friendIntervalSec :=
                                          Math_max (Finite 1) (Math_floor friend)\<rparr>
                             else next1)
                in (Inr next2,
                    cfg\<lparr>farmCheckInterval := js_mul rnd (farmIntervalSec next2) (Finite 1000),
                        friendCheckInterval :=
                          js_mul rnd (friendIntervalSec next2) (Finite 1000)\<rparr>))"

section \<open>Scenarios\<close>

text \<open>
  The closed examples below fix the two conversions between strings and numbers. No example
  reaches them: every name and platform is a string and every numeric property is a number.
\<close>

text \<open>The closed examples are stated for the rounding that rounds nothing; each is an instance
  of a statement that holds for every rounding.\<close>

definition exactRounding :: rounding where
  "exactRounding = toRounding Finite"

definition exampleStrToNum :: "string \<Rightarrow> jsnum" where
  "exampleStrToNum s = NaN"

definition exampleNumToStr :: "jsnum \<Rightarrow> string" where
  "exampleNumToStr n = ''NaN''"

text \<open>The updates \<^verbatim>\<open>{name:"A", exp:100, gold:50}\<close>, \<^verbatim>\<open>{exp:150, gold:80}\<close>,
  \<^verbatim>\<open>{name:"B", exp:10, gold:5}\<close> and \<^verbatim>\<open>{level:5}\<close>.\<close>

definition propsA :: jsobj where
  "propsA = [''name'' \<mapsto> JStr ''A'', ''exp'' \<mapsto> JNum (Finite 100), ''gold'' \<mapsto> JNum (Finite 50)]"

definition propsGain :: jsobj where
  "propsGain = [''exp'' \<mapsto> JNum (Finite 150), ''gold'' \<mapsto> JNum (Finite 80)]"

definition propsB :: jsobj where
  "propsB = [''name'' \<mapsto> JStr ''B'', ''exp'' \<mapsto> JNum (Finite 10), ''gold'' \<mapsto> JNum (Finite 5)]"

definition propsLevel :: jsobj where
  "propsLevel = [''level'' \<mapsto> JNum (Finite 5)]"

definition afterA :: "(string \<Rightarrow> jsnum) \<Rightarrow> (jsnum \<Rightarrow> string) \<Rightarrow> state" where
  "afterA strToNum numToStr = updateStatus strToNum numToStr (Obj propsA) initial_state"

definition afterGain :: "(string \<Rightarrow> jsnum) \<Rightarrow> (jsnum \<Rightarrow> string) \<Rightarrow> state" where
  "afterGain strToNum numToStr =
     updateStatus strToNum numToStr (Obj propsGain) (afterA strToNum numToStr)"

definition afterB :: "(string \<Rightarrow> jsnum) \<Rightarrow> (jsnum \<Rightarrow> string) \<Rightarrow> state" where
  "afterB strToNum numToStr =
     updateStatus strToNum numToStr (Obj propsB) (afterGain strToNum numToStr)"

text \<open>
  The anchoring condition in the words of the specification: the identity just changed, or
  the update itself carried a finite \<^verbatim>\<open>exp\<close> or \<^verbatim>\<open>gold\<close>.
\<close>

definition specAnchorCondition :: "jsobj \<Rightarrow> jsobj \<Rightarrow> bool" where
  "specAnchorCondition prev props =
     (identityChanged prev (prev ++ props) \<or>
      Number_isFinite (getProp props ''exp'') \<or> Number_isFinite (getProp props ''gold''))"

text \<open>A progress function that returns the same object for every level and experience.\<close>

definition constProgress :: "jsval \<Rightarrow> jsval \<Rightarrow> jsnum \<Rightarrow> jsnum \<Rightarrow> jsobj" where
  "constProgress current needed level ex = [''current'' \<mapsto> current, ''needed'' \<mapsto> needed]"

text \<open>Strategy patches \<^verbatim>\<open>{manualSeedId:7, manualSeedName:"X"}\<close>, \<^verbatim>\<open>{clearManual:true}\<close>,
  \<^verbatim>\<open>{clearManual:true, manualSeedId:-5}\<close> and \<^verbatim>\<open>{manualSeedId:0}\<close>.\<close>

definition patchSeed7 :: jsobj where
  "patchSeed7 = [''manualSeedId'' \<mapsto> JNum (Finite 7), ''manualSeedName'' \<mapsto> JStr ''X'']"

definition patchClear :: jsobj where
  "patchClear = [''clearManual'' \<mapsto> JBool True]"

definition patchClearNegative :: jsobj where
  "patchClearNegative = [''clearManual'' \<mapsto> JBool True, ''manualSeedId'' \<mapsto> JNum (Finite (- 5))]"

definition patchSeed0 :: jsobj where
  "patchSeed0 = [''manualSeedId'' \<mapsto> JNum (Finite 0)]"

text \<open>Five log entries.\<close>

definition fiveEntries :: "(string \<times> jsval \<times> jsval) list" where
  "fiveEntries =
     [(''t1'', JStr ''INFO'', JStr ''a''), (''t2'', JStr ''INFO'', JStr ''b''),
      (''t3'', JStr ''WARN'', JStr ''c''), (''t4'', JStr ''INFO'', JStr ''d''),
      (''t5'', JStr ''ERROR'', JStr ''e'')]"

text \<open>The references of the strategy state point into the allocated part of the store.\<close>

definition storeOk :: "state \<Rightarrow> bool" where
  "storeOk st = (case lastDecision (strategy st) of Some a \<Rightarrow> a < nextAddr st | None \<Rightarrow> True)"

text \<open>A recorded decision \<^verbatim>\<open>{seedId:7}\<close>, then a snapshot, then the caller's assignment
  \<^verbatim>\<open>snapshot.lastDecision.seedId = 99\<close>.\<close>

definition decided :: state where
  "decided = recordStrategyDecision (Finite 1000) (Obj [''seedId'' \<mapsto> JNum (Finite 7)]) initial_state"

definition tampered :: state where
  "tampered =
     assignThroughLastDecision (fst (getStrategyConfig decided)) ''seedId''
       (Val (JNum (Finite 99))) (snd (getStrategyConfig decided))"

text \<open>Settings patches \<^verbatim>\<open>{farmIntervalSec:-1}\<close>, \<^verbatim>\<open>{farmIntervalSec:-1, friendIntervalSec:-1}\<close>,
  \<^verbatim>\<open>{friendIntervalSec:-1}\<close> and \<^verbatim>\<open>{friendIntervalSec:2.7}\<close>, and a configuration of 5 and
  10 seconds.\<close>

definition patchFarmNegative :: jsobj where
  "patchFarmNegative = [''farmIntervalSec'' \<mapsto> JNum (Finite (- 1))]"

definition patchBothNegative :: jsobj where
  "patchBothNegative =
     [''farmIntervalSec'' \<mapsto> JNum (Finite (- 1)), ''friendIntervalSec'' \<mapsto> JNum (Finite (- 1))]"

definition patchFriendNegative :: jsobj where
  "patchFriendNegative = [''friendIntervalSec'' \<mapsto> JNum (Finite (- 1))]"

definition patchFriendFraction :: jsobj where
  "patchFriendFraction = [''friendIntervalSec'' \<mapsto> JNum (Finite (27 / 10))]"

definition exampleConfig :: config where
  "exampleConfig = \<lparr>farmCheckInterval = Finite 5000, friendCheckInterval = Finite 10000\<rparr>"

text \<open>The patch \<^verbatim>\<open>{farmIntervalSec:7}\<close> and a configuration whose friend interval is 1500
  milliseconds.\<close>

definition patchFarmSeven :: jsobj where
  "patchFarmSeven = [''farmIntervalSec'' \<mapsto> JNum (Finite 7)]"

definition unevenConfig :: config where
  "unevenConfig = \<lparr>farmCheckInterval = Finite 5000, friendCheckInterval = Finite 1500\<rparr>"

section \<open>Rounding and floors\<close>

lemma roundTo_dyadic:
  "\<bar>k\<bar> \<le> 2 ^ 53 \<Longrightarrow> n \<le> 1074 \<Longrightarrow> roundTo rnd (of_int k / 2 ^ n) = Finite (of_int k / 2 ^ n)"
  using roundTo [of rnd] by blast

lemma roundTo_int: "\<bar>k\<bar> \<le> 2 ^ 53 \<Longrightarrow> roundTo rnd (of_int k) = Finite (of_int k)"
  using roundTo_dyadic [of k 0 rnd] by simp

lemma roundTo_numeral:
  "numeral w \<le> (2 :: int) ^ 53 \<Longrightarrow> roundTo rnd (numeral w) = Finite (numeral w)"
  using roundTo_int [of "numeral w" rnd] by simp

lemma roundTo_zero: "roundTo rnd 0 = Finite 0"
  using roundTo_int [of 0 rnd] by simp

lemma roundTo_one: "roundTo rnd 1 = Finite 1"
  using roundTo_int [of 1 rnd] by simp

lemma roundTo_numeral_half:
  "numeral w \<le> (2 :: int) ^ 53 \<Longrightarrow> roundTo rnd (numeral w / 2) = Finite (numeral w / 2)"
  using roundTo_dyadic [of "numeral w" 1 rnd] by simp

lemma roundTo_half: "roundTo rnd (1 / 2) = Finite (1 / 2)"
  using roundTo_dyadic [of 1 1 rnd] by simp

lemma roundTo_exactRounding: "roundTo exactRounding x = Finite x"
  by (simp add: exactRounding_def toRounding_inverse)

lemma floor_rat_numeral_quotient:
  "\<lfloor>numeral a / numeral b :: rat\<rfloor> = numeral a div numeral b"
  using floor_divide_of_int_eq [of "numeral a" "numeral b", where ?'a = rat] by simp

lemma floor_rat_neg_numeral_quotient:
  "\<lfloor>- (numeral a / numeral b) :: rat\<rfloor> = - numeral a div numeral b"
  using floor_divide_of_int_eq [of "- numeral a" "numeral b", where ?'a = rat] by simp

section \<open>Baseline anchoring\<close>

lemmas status_defs = updateStatus_def Let_def loginReady_def identityKey_def
  invalidateBaseline_def identityChanged_def anchorCondition_def anchorBaseline_def
  finiteOrZero_def getProp_def js_or_def strict_neq_def js_gt_def

lemma invalidate_not_ready: "\<not> base_ready b \<Longrightarrow> invalidateBaseline k b = b"
  by (simp add: invalidateBaseline_def)

lemma finiteOrZero_finite: "Number_isFinite v \<Longrightarrow> JNum (finiteOrZero v) = v"
  by (cases v) (auto simp: finiteOrZero_def)

lemma finiteOrZero_other: "\<not> Number_isFinite v \<Longrightarrow> finiteOrZero v = Finite 0"
  by (cases v) (auto simp: finiteOrZero_def)

lemma level_update_login: "loginReady sn ns (status initial_state ++ propsLevel)"
  by (simp add: loginReady_def propsLevel_def initial_state_def getProp_def js_or_def js_gt_def)

lemma level_update_no_identity_change:
  "\<not> identityChanged (status initial_state) (status initial_state ++ propsLevel)"
  by (simp add: identityChanged_def propsLevel_def initial_state_def getProp_def strict_neq_def)

lemma level_update_anchors:
  "baseline (updateStatus sn ns (Obj propsLevel) initial_state) =
     \<lparr>base_gold = Some (Finite 0), base_exp = Some (Finite 0), base_ready = True,
      base_key = ''qq:''\<rparr>"
  by (simp add: propsLevel_def initial_state_def status_defs)

text \<open>
  Claim C1, as the code has it. Take an \<^verbatim>\<open>updateStatus\<close> call with an object, let \<open>cur\<close> be
  the merged snapshot and \<open>b1\<close> the baseline after the invalidation step (it is the baseline
  of before the call when that one was not ready). If \<open>b1\<close> is not ready and \<open>cur\<close> is
  login-ready, a baseline is anchored exactly when the identity just changed or the
  \<^emph>\<open>merged snapshot\<close> holds a finite \<^verbatim>\<open>exp\<close> or \<^verbatim>\<open>gold\<close>, whether the update carried it or
  not. The anchored values are those of the merged snapshot, 0 for one that is not a finite
  number, and the key is the identity key; otherwise the baseline stays \<open>b1\<close>.
\<close>

theorem updateStatus_anchor_rule:
  assumes "cur = status st ++ props"
      and "b1 = invalidateBaseline (identityKey sn ns cur) (baseline st)"
      and "st' = updateStatus sn ns (Obj props) st"
      and "\<not> base_ready b1"
      and "loginReady sn ns cur"
  shows "(base_ready (baseline st') =
            (identityChanged (status st) cur \<or> Number_isFinite (getProp cur ''exp'') \<or>
             Number_isFinite (getProp cur ''gold''))) \<and>
         (base_ready (baseline st') \<longrightarrow>
            baseline st' =
              \<lparr>base_gold = Some (finiteOrZero (getProp cur ''gold'')),
               base_exp = Some (finiteOrZero (getProp cur ''exp'')),
               base_ready = True, base_key = identityKey sn ns cur\<rparr>) \<and>
         (\<not> base_ready (baseline st') \<longrightarrow> baseline st' = b1) \<and>
         (\<not> base_ready (baseline st) \<longrightarrow> b1 = baseline st) \<and>
         (Number_isFinite v \<longrightarrow> JNum (finiteOrZero v) = v) \<and>
         (\<not> Number_isFinite v \<longrightarrow> finiteOrZero v = Finite 0)"
  using assms
  by (auto simp: updateStatus_def Let_def anchorCondition_def anchorBaseline_def
      invalidate_not_ready finiteOrZero_finite finiteOrZero_other)

text \<open>
  The rule at the update \<^verbatim>\<open>{level:5}\<close> of the fresh state: the baseline is not ready, the
  merged snapshot is login-ready and its \<^verbatim>\<open>exp\<close> (the initial 0) is finite, so the baseline
  becomes ready.
\<close>

theorem updateStatus_anchor_rule_witness:
  "\<not> base_ready (invalidateBaseline
        (identityKey exampleStrToNum exampleNumToStr (status initial_state ++ propsLevel))
        (baseline initial_state)) \<and>
   loginReady exampleStrToNum exampleNumToStr (status initial_state ++ propsLevel) \<and>
   Number_isFinite (getProp (status initial_state ++ propsLevel) ''exp'') \<and>
   base_ready (baseline (updateStatus exampleStrToNum exampleNumToStr (Obj propsLevel) initial_state))"
proof -
  have nr: "\<not> base_ready (invalidateBaseline
        (identityKey exampleStrToNum exampleNumToStr (status initial_state ++ propsLevel))
        (baseline initial_state))"
    by (simp add: invalidateBaseline_def initial_state_def)
  have fin: "Number_isFinite (getProp (status initial_state ++ propsLevel) ''exp'')"
    by (simp add: initial_state_def propsLevel_def getProp_def)
  from updateStatus_anchor_rule [OF refl refl refl nr level_update_login] fin nr level_update_login
  show ?thesis by simp
qed

text \<open>
  Claim C1 as stated fails at the update \<^verbatim>\<open>{level:5}\<close> of the fresh state: the baseline is not
  ready and the merged snapshot is login-ready (level 5); the identity did not change and the
  update carried neither \<^verbatim>\<open>exp\<close> nor \<^verbatim>\<open>gold\<close>; yet a baseline is anchored, at 0 and 0.
\<close>

theorem spec_anchor_counterexample:
  "\<not> base_ready (baseline initial_state) \<and>
   loginReady exampleStrToNum exampleNumToStr (status initial_state ++ propsLevel) \<and>
   \<not> specAnchorCondition (status initial_state) propsLevel \<and>
   baseline (updateStatus exampleStrToNum exampleNumToStr (Obj propsLevel) initial_state) =
     \<lparr>base_gold = Some (Finite 0), base_exp = Some (Finite 0), base_ready = True,
      base_key = ''qq:''\<rparr>"
  using level_update_no_identity_change
  by (simp add: level_update_login level_update_anchors specAnchorCondition_def)
     (simp add: initial_state_def propsLevel_def getProp_def)

subsection \<open>The two scenarios of the specification\<close>

lemma baseline_afterA:
  "baseline (afterA sn ns) =
     \<lparr>base_gold = Some (Finite 50), base_exp = Some (Finite 100), base_ready = True,
      base_key = ''qq:A''\<rparr>"
  by (simp add: afterA_def propsA_def initial_state_def status_defs)

lemma status_afterA: "status (afterA sn ns) = status initial_state ++ propsA"
  by (simp add: afterA_def updateStatus_def Let_def)

lemma status_afterGain: "status (afterGain sn ns) = status initial_state ++ propsA ++ propsGain"
  by (simp add: afterGain_def updateStatus_def Let_def status_afterA)

lemma baseline_afterGain: "baseline (afterGain sn ns) = baseline (afterA sn ns)"
  by (simp add: afterGain_def propsGain_def baseline_afterA status_afterA propsA_def
      initial_state_def status_defs)

lemma status_afterB:
  "status (afterB sn ns) = status initial_state ++ propsA ++ propsGain ++ propsB"
  by (simp add: afterB_def updateStatus_def Let_def status_afterGain)

lemma identityKey_B: "identityKey sn ns (status (afterGain sn ns) ++ propsB) = ''qq:B''"
  by (simp add: status_afterGain propsA_def propsGain_def propsB_def initial_state_def
      loginReady_def identityKey_def getProp_def js_or_def)

lemma invalidated_B:
  "invalidateBaseline ''qq:B'' (baseline (afterGain sn ns)) =
     \<lparr>base_gold = None, base_exp = None, base_ready = False, base_key = []\<rparr>"
  by (simp add: baseline_afterGain baseline_afterA invalidateBaseline_def)

lemma baseline_afterB:
  "baseline (afterB sn ns) =
     \<lparr>base_gold = Some (Finite 5), base_exp = Some (Finite 10), base_ready = True,
      base_key = ''qq:B''\<rparr>"
  by (simp add: afterB_def baseline_afterGain baseline_afterA status_afterGain propsA_def
      propsGain_def propsB_def initial_state_def status_defs)

lemma gains_afterGain:
  "expGain (buildMetrics rnd sn glp up (afterGain sn ns)) = Finite 50 \<and>
   goldGain (buildMetrics rnd sn glp up (afterGain sn ns)) = Finite 30"
  by (simp add: buildMetrics_def Let_def statusNumber_def baseOr_def num_or_def getProp_def
      baseline_afterGain baseline_afterA status_afterGain propsA_def propsGain_def
      initial_state_def roundTo_numeral)

lemma gains_afterB:
  "expGain (buildMetrics rnd sn glp up (afterB sn ns)) = Finite 0 \<and>
   goldGain (buildMetrics rnd sn glp up (afterB sn ns)) = Finite 0"
  by (simp add: buildMetrics_def Let_def statusNumber_def baseOr_def num_or_def getProp_def
      baseline_afterB status_afterB propsA_def propsGain_def propsB_def initial_state_def
      roundTo_zero)

lemma fresh_status:
  "getProp (status initial_state) ''platform'' = JStr ''qq'' \<and>
   getProp (status initial_state) ''name'' = JStr [] \<and>
   getProp (status initial_state) ''level'' = JNum (Finite 0) \<and>
   getProp (status initial_state) ''gold'' = JNum (Finite 0) \<and>
   getProp (status initial_state) ''exp'' = JNum (Finite 0) \<and>
   \<not> base_ready (baseline initial_state)"
  by (simp add: initial_state_def getProp_def)

text \<open>
  Claim C2. The fresh state has platform \<^verbatim>\<open>"qq"\<close>, an empty name, level, gold and exp 0 and
  a baseline that is not ready. After \<^verbatim>\<open>updateStatus({name:"A", exp:100, gold:50})\<close> the
  baseline is anchored at exp 100 and gold 50 (key \<^verbatim>\<open>"qq:A"\<close>);
  \<^verbatim>\<open>updateStatus({exp:150, gold:80})\<close> leaves it unchanged; \<^verbatim>\<open>buildMetrics\<close> then reports
  \<^verbatim>\<open>expGain = 50\<close> and \<^verbatim>\<open>goldGain = 30\<close>, for every uptime and progress function.
\<close>

theorem baseline_anchoring_scenario:
  "getProp (status initial_state) ''platform'' = JStr ''qq'' \<and>
   getProp (status initial_state) ''name'' = JStr [] \<and>
   getProp (status initial_state) ''level'' = JNum (Finite 0) \<and>
   getProp (status initial_state) ''gold'' = JNum (Finite 0) \<and>
   getProp (status initial_state) ''exp'' = JNum (Finite 0) \<and>
   \<not> base_ready (baseline initial_state) \<and>
   baseline (afterA sn ns) =
     \<lparr>base_gold = Some (Finite 50), base_exp = Some (Finite 100), base_ready = True,
      base_key = ''qq:A''\<rparr> \<and>
   baseline (afterGain sn ns) = baseline (afterA sn ns) \<and>
   expGain (buildMetrics rnd sn glp up (afterGain sn ns)) = Finite 50 \<and>
   goldGain (buildMetrics rnd sn glp up (afterGain sn ns)) = Finite 30"
  using fresh_status by (simp add: baseline_afterA baseline_afterGain gains_afterGain)

theorem baseline_anchoring_scenario_witness:
  "baseline (afterGain exampleStrToNum exampleNumToStr) =
     \<lparr>base_gold = Some (Finite 50), base_exp = Some (Finite 100), base_ready = True,
      base_key = ''qq:A''\<rparr> \<and>
   expGain (buildMetrics exactRounding exampleStrToNum (constProgress (JNum (Finite 0)) (JNum (Finite 100)))
      (Finite 60) (afterGain exampleStrToNum exampleNumToStr)) = Finite 50 \<and>
   goldGain (buildMetrics exactRounding exampleStrToNum (constProgress (JNum (Finite 0)) (JNum (Finite 100)))
      (Finite 60) (afterGain exampleStrToNum exampleNumToStr)) = Finite 30"
  using baseline_anchoring_scenario [where sn = exampleStrToNum and ns = exampleNumToStr
      and rnd = exactRounding and glp = "constProgress (JNum (Finite 0)) (JNum (Finite 100))"
      and up = "Finite 60"]
  by simp

text \<open>
  Claim C3. After the two updates the baseline has key \<^verbatim>\<open>"qq:A"\<close>. The single call
  \<^verbatim>\<open>updateStatus({name:"B", exp:10, gold:5})\<close> computes the identity key \<^verbatim>\<open>"qq:B"\<close>, which
  differs, so its invalidation step clears the baseline, and the same call anchors the baseline
  at exp 10 and gold 5 with key \<^verbatim>\<open>"qq:B"\<close>; \<^verbatim>\<open>buildMetrics\<close> then reports \<^verbatim>\<open>expGain = 0\<close>.
\<close>

theorem identity_rotation_scenario:
  "base_key (baseline (afterGain sn ns)) = ''qq:A'' \<and>
   identityKey sn ns (status (afterGain sn ns) ++ propsB) = ''qq:B'' \<and>
   invalidateBaseline (identityKey sn ns (status (afterGain sn ns) ++ propsB))
       (baseline (afterGain sn ns)) =
     \<lparr>base_gold = None, base_exp = None, base_ready = False, base_key = []\<rparr> \<and>
   afterB sn ns = updateStatus sn ns (Obj propsB) (afterGain sn ns) \<and>
   baseline (afterB sn ns) =
     \<lparr>base_gold = Some (Finite 5), base_exp = Some (Finite 10), base_ready = True,
      base_key = ''qq:B''\<rparr> \<and>
   expGain (buildMetrics rnd sn glp up (afterB sn ns)) = Finite 0"
  using invalidated_B [of sn ns] gains_afterB [of rnd sn glp up ns]
  by (simp add: identityKey_B baseline_afterGain baseline_afterA baseline_afterB)
     (simp add: afterB_def)

theorem identity_rotation_scenario_witness:
  "baseline (afterB exampleStrToNum exampleNumToStr) =
     \<lparr>base_gold = Some (Finite 5), base_exp = Some (Finite 10), base_ready = True,
      base_key = ''qq:B''\<rparr> \<and>
   expGain (buildMetrics exactRounding exampleStrToNum (constProgress (JNum (Finite 0)) (JNum (Finite 100)))
      (Finite 60) (afterB exampleStrToNum exampleNumToStr)) = Finite 0"
  using identity_rotation_scenario [where sn = exampleStrToNum and ns = exampleNumToStr
      and rnd = exactRounding and glp = "constProgress (JNum (Finite 0)) (JNum (Finite 100))"
      and up = "Finite 60"]
  by blast

section \<open>Rates\<close>






section \<open>Level progress\<close>

lemma expNeeded_eq:
  "expNeeded (buildMetrics rnd sn glp up st) =
     num_or (ToNumber sn
       (getProp (glp (statusNumber sn st ''level'') (statusNumber sn st ''exp'')) ''needed''))
       (Finite 1)"
  by (simp add: buildMetrics_def Let_def)

lemma expProgress_eq:
  "expProgress (buildMetrics rnd sn glp up st) =
     Math_max (Finite 0) (Math_min (Finite 100)
       (Math_round (js_mul rnd (js_div rnd (expCurrent (buildMetrics rnd sn glp up st))
          (expNeeded (buildMetrics rnd sn glp up st))) (Finite 100))))"
  by (simp add: buildMetrics_def Let_def)

lemma clamp_range:
  "Math_max (Finite 0) (Math_min (Finite 100) x) = NaN \<or>
   (js_le (Finite 0) (Math_max (Finite 0) (Math_min (Finite 100) x)) \<and>
    js_le (Math_max (Finite 0) (Math_min (Finite 100) x)) (Finite 100))"
  by (cases x) (auto simp: Math_max_def Math_min_def)

text \<open>
  Claim C9, as the code has it. Let \<open>needed\<close> be \<^verbatim>\<open>Number(progress.needed)\<close> for the object
  that the progress function returns. The divisor \<^verbatim>\<open>expNeeded\<close> is \<open>needed\<close>, replaced by 1
  when \<open>needed\<close> is 0 or NaN (the default of \<^verbatim>\<open>|| 1\<close>, not a floor): it is never 0 and never
  NaN, so the division is never by zero, and it is at least 1 whenever \<open>needed\<close> is. A negative
  or fractional \<open>needed\<close> is kept as it is. \<^verbatim>\<open>expProgress\<close> is
  \<^verbatim>\<open>max(0, min(100, round(expCurrent / expNeeded * 100)))\<close>, the division and the product
  being those of doubles (each rounds its result, whatever the rounding is); it is NaN or lies
  between 0 and 100.
\<close>

theorem expNeeded_default:
  assumes "m = buildMetrics rnd sn glp up st"
      and "needed = ToNumber sn
             (getProp (glp (statusNumber sn st ''level'') (statusNumber sn st ''exp'')) ''needed'')"
  shows "expNeeded m = (if needed = Finite 0 \<or> needed = NaN then Finite 1 else needed) \<and>
         expNeeded m \<noteq> Finite 0 \<and> expNeeded m \<noteq> NaN \<and>
         (js_ge needed (Finite 1) \<longrightarrow> js_ge (expNeeded m) (Finite 1)) \<and>
         expProgress m =
           Math_max (Finite 0) (Math_min (Finite 100)
             (Math_round (js_mul rnd (js_div rnd (expCurrent m) (expNeeded m)) (Finite 100)))) \<and>
         (expProgress m = NaN \<or>
          (js_le (Finite 0) (expProgress m) \<and> js_le (expProgress m) (Finite 100)))"
proof -
  have e: "expNeeded m = num_or needed (Finite 1)"
    using assms by (simp add: expNeeded_eq)
  have p: "expProgress m =
           Math_max (Finite 0) (Math_min (Finite 100)
             (Math_round (js_mul rnd (js_div rnd (expCurrent m) (expNeeded m)) (Finite 100))))"
    using assms(1) by (simp add: expProgress_eq)
  have r: "expProgress m = NaN \<or>
          (js_le (Finite 0) (expProgress m) \<and> js_le (expProgress m) (Finite 100))"
    unfolding p by (rule clamp_range)
  have n1: "expNeeded m = (if needed = Finite 0 \<or> needed = NaN then Finite 1 else needed)"
    by (auto simp: e num_or_def)
  have n2: "expNeeded m \<noteq> Finite 0 \<and> expNeeded m \<noteq> NaN"
    by (auto simp: e num_or_def)
  have n3: "js_ge needed (Finite 1) \<longrightarrow> js_ge (expNeeded m) (Finite 1)"
    by (cases needed) (auto simp: e num_or_def js_ge_def)
  from n1 n2 n3 p r show ?thesis by blast
qed

text \<open>
  Claim C9 as stated fails when the progress function returns \<^verbatim>\<open>{current: 1, needed: -3}\<close>:
  the reported \<^verbatim>\<open>expNeeded\<close> is -3, which is not at least 1.
\<close>

theorem expNeeded_counterexample:
  "expNeeded (buildMetrics exactRounding exampleStrToNum
      (constProgress (JNum (Finite 1)) (JNum (Finite (- 3)))) (Finite 60) initial_state) =
     Finite (- 3) \<and>
   \<not> js_ge (expNeeded (buildMetrics exactRounding exampleStrToNum
      (constProgress (JNum (Finite 1)) (JNum (Finite (- 3)))) (Finite 60) initial_state))
      (Finite 1)"
  by (simp add: expNeeded_eq constProgress_def getProp_def num_or_def js_ge_def)

text \<open>
  The rule at \<^verbatim>\<open>{current: 30, needed: 0}\<close> (the divisor is 1 and the progress is capped at 100)
  and at \<^verbatim>\<open>{current: 1, needed: 2}\<close> (the divisor is 2; 1 / 2 is 0.5 and 0.5 * 100 is 50, both
  exactly, so the progress is 50).
\<close>

theorem expNeeded_default_witness:
  "expNeeded (buildMetrics exactRounding exampleStrToNum
      (constProgress (JNum (Finite 30)) (JNum (Finite 0))) (Finite 60) initial_state) = Finite 1 \<and>
   expProgress (buildMetrics exactRounding exampleStrToNum
      (constProgress (JNum (Finite 30)) (JNum (Finite 0))) (Finite 60) initial_state) =
     Finite 100 \<and>
   js_ge (Finite 2) (Finite 1) \<and>
   expNeeded (buildMetrics exactRounding exampleStrToNum
      (constProgress (JNum (Finite 1)) (JNum (Finite 2))) (Finite 60) initial_state) = Finite 2 \<and>
   expProgress (buildMetrics exactRounding exampleStrToNum
      (constProgress (JNum (Finite 1)) (JNum (Finite 2))) (Finite 60) initial_state) = Finite 50"
proof -
  have c: "expCurrent (buildMetrics rnd exampleStrToNum (constProgress (JNum (Finite x)) nd)
      (Finite 60) initial_state) = num_or (Finite x) (Finite 0)" for rnd x nd
    by (simp add: buildMetrics_def Let_def constProgress_def getProp_def)
  have g: "js_ge (Finite 2) (Finite 1)"
    by (simp add: js_ge_def)
  have n0: "ToNumber exampleStrToNum
      (getProp (constProgress (JNum (Finite 30)) (JNum (Finite 0)) a b) ''needed'') = Finite 0"
    for a b
    by (simp add: constProgress_def getProp_def)
  have n2: "ToNumber exampleStrToNum
      (getProp (constProgress (JNum (Finite 1)) (JNum (Finite 2)) a b) ''needed'') = Finite 2"
    for a b
    by (simp add: constProgress_def getProp_def)
  have r1: "Math_max (Finite 0) (Math_min (Finite 100)
      (Math_round (js_mul rnd (js_div rnd (Finite 30) (Finite 1)) (Finite 100)))) = Finite 100"
    for rnd
    by (simp add: roundTo_numeral Math_max_def Math_min_def Math_round_def
        floor_rat_numeral_quotient)
  have r2: "Math_max (Finite 0) (Math_min (Finite 100)
      (Math_round (js_mul rnd (js_div rnd (Finite 1) (Finite 2)) (Finite 100)))) = Finite 50"
    for rnd
    by (simp add: roundTo_half roundTo_numeral Math_max_def Math_min_def Math_round_def
        floor_rat_numeral_quotient)
  note first = expNeeded_default [where rnd = exactRounding and sn = exampleStrToNum
      and glp = "constProgress (JNum (Finite 30)) (JNum (Finite 0))" and up = "Finite 60"
      and st = initial_state, OF refl refl, unfolded n0 c]
  note second = expNeeded_default [where rnd = exactRounding and sn = exampleStrToNum
      and glp = "constProgress (JNum (Finite 1)) (JNum (Finite 2))" and up = "Finite 60"
      and st = initial_state, OF refl refl, unfolded n2 c]
  have a1: "expNeeded (buildMetrics exactRounding exampleStrToNum
      (constProgress (JNum (Finite 30)) (JNum (Finite 0))) (Finite 60) initial_state) = Finite 1"
    using first by simp
  have a2: "expProgress (buildMetrics exactRounding exampleStrToNum
      (constProgress (JNum (Finite 30)) (JNum (Finite 0))) (Finite 60) initial_state) =
     Finite 100"
    using first r1 [of exactRounding] by (simp add: a1 num_or_def)
  have b1: "expNeeded (buildMetrics exactRounding exampleStrToNum
      (constProgress (JNum (Finite 1)) (JNum (Finite 2))) (Finite 60) initial_state) = Finite 2"
    using second by simp
  have b2: "expProgress (buildMetrics exactRounding exampleStrToNum
      (constProgress (JNum (Finite 1)) (JNum (Finite 2))) (Finite 60) initial_state) = Finite 50"
    using second r2 [of exactRounding] by (simp add: b1 num_or_def)
  from a1 a2 g b1 b2 show ?thesis by blast
qed

section \<open>Log eviction and log ids\<close>

lemma addLog_disabled: "js_le cap (Finite 0) \<Longrightarrow> addLog ns cap ts lv msg st = st"
  by (simp add: addLog_def)

lemma addLogs_disabled: "js_le cap (Finite 0) \<Longrightarrow> addLogs ns cap es st = st"
  by (induction es arbitrary: st) (auto simp: addLog_disabled)

lemma addLog_nextLogId:
  "\<not> js_le cap (Finite 0) \<Longrightarrow> nextLogId (addLog ns cap ts lv msg st) = Suc (nextLogId st)"
  by (simp add: addLog_def Let_def)

lemma addLogs_nextLogId:
  "\<not> js_le cap (Finite 0) \<Longrightarrow> nextLogId (addLogs ns cap es st) = nextLogId st + length es"
  by (induction es arbitrary: st) (auto simp: addLog_nextLogId)

lemma addLog_ids:
  assumes "map log_id (logs st) = [nextLogId st - length (logs st) ..< nextLogId st]"
      and "length (logs st) < nextLogId st"
  shows "map log_id (logs (addLog ns cap ts lv msg st)) =
           [nextLogId (addLog ns cap ts lv msg st) - length (logs (addLog ns cap ts lv msg st))
              ..< nextLogId (addLog ns cap ts lv msg st)] \<and>
         length (logs (addLog ns cap ts lv msg st)) < nextLogId (addLog ns cap ts lv msg st)"
proof (cases "js_le cap (Finite 0)")
  case True
  with assms show ?thesis by (simp add: addLog_disabled)
next
  case False
  let ?n = "nextLogId st" and ?l = "length (logs st)"
  have pushed: "map log_id (logs st @ [\<lparr>log_id = ?n, log_ts = ts, log_level = lv,
        log_message = ToString ns (js_or msg (JStr []))\<rparr>]) = [?n - ?l ..< Suc ?n]"
    using assms by simp
  have trimmed: "map log_id (tl (logs st @ [\<lparr>log_id = ?n, log_ts = ts, log_level = lv,
        log_message = ToString ns (js_or msg (JStr []))\<rparr>])) = [Suc ?n - ?l ..< Suc ?n]"
  proof -
    have "map log_id (tl (logs st @ [\<lparr>log_id = ?n, log_ts = ts, log_level = lv,
        log_message = ToString ns (js_or msg (JStr []))\<rparr>])) = tl [?n - ?l ..< Suc ?n]"
      using pushed by (simp only: map_tl)
    also have "\<dots> = [Suc (?n - ?l) ..< Suc ?n]"
      by (simp add: upt_conv_Cons del: upt_Suc)
    also have "Suc (?n - ?l) = Suc ?n - ?l"
      using assms(2) by simp
    finally show ?thesis .
  qed
  show ?thesis
    using False assms(2) pushed trimmed
    by (simp add: addLog_def Let_def del: upt_Suc map_append)
qed

lemma addLogs_ids:
  "map log_id (logs st) = [nextLogId st - length (logs st) ..< nextLogId st] \<Longrightarrow>
   length (logs st) < nextLogId st \<Longrightarrow>
   map log_id (logs (addLogs ns cap es st)) =
     [nextLogId (addLogs ns cap es st) - length (logs (addLogs ns cap es st))
        ..< nextLogId (addLogs ns cap es st)]"
proof (induction es arbitrary: st)
  case Nil
  then show ?case by simp
next
  case (Cons e es)
  obtain ts lv msg where e: "e = (ts, lv, msg)" by (cases e)
  from addLog_ids [OF Cons.prems, of ns cap ts lv msg] Cons.IH [of "addLog ns cap ts lv msg st"]
  show ?case by (simp add: e)
qed

lemma initial_ids:
  "map log_id (logs initial_state) =
     [nextLogId initial_state - length (logs initial_state) ..< nextLogId initial_state] \<and>
   length (logs initial_state) < nextLogId initial_state \<and> nextLogId initial_state = 1"
  by (simp add: initial_state_def)

lemma addLog_length:
  assumes "0 < c" and "length (logs st) \<le> c"
  shows "length (logs (addLog ns (Finite (of_nat c)) ts lv msg st)) = min (Suc (length (logs st))) c"
  using assms by (auto simp: addLog_def Let_def js_gt_def)

lemma addLogs_length:
  "0 < c \<Longrightarrow> length (logs st) \<le> c \<Longrightarrow>
   length (logs (addLogs ns (Finite (of_nat c)) es st)) = min (length (logs st) + length es) c"
proof (induction es arbitrary: st)
  case Nil
  then show ?case by simp
next
  case (Cons e es)
  obtain ts lv msg where e: "e = (ts, lv, msg)" by (cases e)
  have l: "length (logs (addLog ns (Finite (of_nat c)) ts lv msg st)) = min (Suc (length (logs st))) c"
    using Cons.prems by (rule addLog_length)
  then have "length (logs (addLog ns (Finite (of_nat c)) ts lv msg st)) \<le> c" by simp
  from Cons.IH [OF Cons.prems(1) this] l show ?case by (simp add: e)
qed

lemma getLogsSince_positive:
  "0 < x \<Longrightarrow> getLogsSince (JNum (Finite x)) st =
     filter (\<lambda>item. x < of_nat (log_id item)) (logs st)"
  by (simp add: getLogsSince_def js_gt_def)

lemma five_logs:
  "logs (addLogs ns (Finite 3) [(t1, l1, m1), (t2, l2, m2), (t3, l3, m3), (t4, l4, m4), (t5, l5, m5)]
      initial_state) =
   [\<lparr>log_id = 3, log_ts = t3, log_level = l3, log_message = ToString ns (js_or m3 (JStr []))\<rparr>,
    \<lparr>log_id = 4, log_ts = t4, log_level = l4, log_message = ToString ns (js_or m4 (JStr []))\<rparr>,
    \<lparr>log_id = 5, log_ts = t5, log_level = l5, log_message = ToString ns (js_or m5 (JStr []))\<rparr>]"
  by (simp add: addLog_def Let_def initial_state_def js_gt_def)


lemma since_three:
  "getLogsSince (JNum (Finite 3)) st = filter (\<lambda>item. 3 < log_id item) (logs st)"
proof -
  have "(3 < rat_of_nat n) = (3 < n)" for n
    using of_nat_less_iff [of 3 n, where ?'a = rat] by simp
  then show ?thesis by (simp add: getLogsSince_positive)
qed

text \<open>
  Claim C4. With \<^verbatim>\<open>MAX_LOGS = 3\<close>, five appends to the fresh state leave exactly the third,
  fourth and fifth entries, with ids 3, 4, 5 in that order, and \<^verbatim>\<open>getLogsSince(3)\<close> returns
  the entries with ids 4 and 5; in any state \<^verbatim>\<open>getLogsSince(3)\<close> returns the entries whose id
  is greater than 3. For every capacity and every run of appends from the fresh state, the ids
  in the buffer are the consecutive numbers that end just below \<^verbatim>\<open>nextLogId\<close>, and
  \<^verbatim>\<open>nextLogId\<close> is one more than the number of appends (1 when the capacity is at most 0): ids
  are handed out as 1, 2, 3, ... and none is used twice. A whole capacity \<open>c > 0\<close> keeps the
  last \<open>min n c\<close> of \<open>n\<close> entries. With capacity 0 an append changes nothing.
\<close>

theorem log_buffer:
  "logs (addLogs ns (Finite 3)
      [(t1, l1, m1), (t2, l2, m2), (t3, l3, m3), (t4, l4, m4), (t5, l5, m5)] initial_state) =
     [\<lparr>log_id = 3, log_ts = t3, log_level = l3, log_message = ToString ns (js_or m3 (JStr []))\<rparr>,
      \<lparr>log_id = 4, log_ts = t4, log_level = l4, log_message = ToString ns (js_or m4 (JStr []))\<rparr>,
      \<lparr>log_id = 5, log_ts = t5, log_level = l5, log_message = ToString ns (js_or m5 (JStr []))\<rparr>] \<and>
   getLogsSince (JNum (Finite 3)) (addLogs ns (Finite 3)
      [(t1, l1, m1), (t2, l2, m2), (t3, l3, m3), (t4, l4, m4), (t5, l5, m5)] initial_state) =
     [\<lparr>log_id = 4, log_ts = t4, log_level = l4, log_message = ToString ns (js_or m4 (JStr []))\<rparr>,
      \<lparr>log_id = 5, log_ts = t5, log_level = l5, log_message = ToString ns (js_or m5 (JStr []))\<rparr>] \<and>
   getLogsSince (JNum (Finite 3)) st = filter (\<lambda>item. 3 < log_id item) (logs st) \<and>
   map log_id (logs (addLogs ns cap es initial_state)) =
     [nextLogId (addLogs ns cap es initial_state) - length (logs (addLogs ns cap es initial_state))
        ..< nextLogId (addLogs ns cap es initial_state)] \<and>
   nextLogId (addLogs ns cap es initial_state) =
     (if js_le cap (Finite 0) then 1 else Suc (length es)) \<and>
   (0 < c \<longrightarrow>
      length (logs (addLogs ns (Finite (of_nat c)) es initial_state)) = min (length es) c) \<and>
   addLog ns (Finite 0) ts lv msg st = st"
proof -
  have five: "logs (addLogs ns (Finite 3)
      [(t1, l1, m1), (t2, l2, m2), (t3, l3, m3), (t4, l4, m4), (t5, l5, m5)] initial_state) =
     [\<lparr>log_id = 3, log_ts = t3, log_level = l3, log_message = ToString ns (js_or m3 (JStr []))\<rparr>,
      \<lparr>log_id = 4, log_ts = t4, log_level = l4, log_message = ToString ns (js_or m4 (JStr []))\<rparr>,
      \<lparr>log_id = 5, log_ts = t5, log_level = l5, log_message = ToString ns (js_or m5 (JStr []))\<rparr>]"
    by (rule five_logs)
  have since: "getLogsSince (JNum (Finite 3)) (addLogs ns (Finite 3)
      [(t1, l1, m1), (t2, l2, m2), (t3, l3, m3), (t4, l4, m4), (t5, l5, m5)] initial_state) =
     [\<lparr>log_id = 4, log_ts = t4, log_level = l4, log_message = ToString ns (js_or m4 (JStr []))\<rparr>,
      \<lparr>log_id = 5, log_ts = t5, log_level = l5, log_message = ToString ns (js_or m5 (JStr []))\<rparr>]"
    unfolding since_three five by simp
  have ids: "map log_id (logs (addLogs ns cap es initial_state)) =
     [nextLogId (addLogs ns cap es initial_state) - length (logs (addLogs ns cap es initial_state))
        ..< nextLogId (addLogs ns cap es initial_state)]"
    by (rule addLogs_ids) (simp_all add: initial_state_def)
  have nxt: "nextLogId (addLogs ns cap es initial_state) =
     (if js_le cap (Finite 0) then 1 else Suc (length es))"
    using initial_ids by (simp add: addLogs_disabled addLogs_nextLogId)
  have len: "0 < c \<longrightarrow>
      length (logs (addLogs ns (Finite (of_nat c)) es initial_state)) = min (length es) c"
    using addLogs_length [of c initial_state ns es] by (simp add: initial_state_def)
  have off: "addLog ns (Finite 0) ts lv msg st = st"
    by (simp add: addLog_disabled)
  from five since since_three ids nxt len off show ?thesis by blast
qed

text \<open>The five entries of \<open>fiveEntries\<close> with capacity 3, and with capacity 0.\<close>

theorem log_buffer_witness:
  "map log_id (logs (addLogs exampleNumToStr (Finite 3) fiveEntries initial_state)) = [3, 4, 5] \<and>
   map log_id (getLogsSince (JNum (Finite 3))
      (addLogs exampleNumToStr (Finite 3) fiveEntries initial_state)) = [4, 5] \<and>
   map log_message (logs (addLogs exampleNumToStr (Finite 3) fiveEntries initial_state)) =
     [''c'', ''d'', ''e''] \<and>
   nextLogId (addLogs exampleNumToStr (Finite 3) fiveEntries initial_state) = 6 \<and>
   (0::nat) < 3 \<and>
   length (logs (addLogs exampleNumToStr (Finite (of_nat 3)) fiveEntries initial_state)) = 3 \<and>
   addLogs exampleNumToStr (Finite 0) fiveEntries initial_state = initial_state"
proof -
  note inst = log_buffer [where ns = exampleNumToStr and cap = "Finite 3" and c = 3
      and es = fiveEntries
      and ?t1.0 = "''t1''" and ?l1.0 = "JStr ''INFO''" and ?m1.0 = "JStr ''a''"
      and ?t2.0 = "''t2''" and ?l2.0 = "JStr ''INFO''" and ?m2.0 = "JStr ''b''"
      and ?t3.0 = "''t3''" and ?l3.0 = "JStr ''WARN''" and ?m3.0 = "JStr ''c''"
      and ?t4.0 = "''t4''" and ?l4.0 = "JStr ''INFO''" and ?m4.0 = "JStr ''d''"
      and ?t5.0 = "''t5''" and ?l5.0 = "JStr ''ERROR''" and ?m5.0 = "JStr ''e''",
      folded fiveEntries_def]
  have off: "addLogs exampleNumToStr (Finite 0) fiveEntries initial_state = initial_state"
    by (simp add: addLogs_disabled)
  from inst off show ?thesis
    by (simp add: js_or_def fiveEntries_def)
qed

section \<open>The manual override\<close>

lemma getStrategyConfig_strategy: "strategy (snd (getStrategyConfig st)) = strategy st"
  by (simp add: getStrategyConfig_def)

lemma updateStrategyConfig_strategy:
  "strategy (snd (updateStrategyConfig sn ns now (Obj p) st)) =
     (applyManualSeed sn ns p (applyClearManual p (applyMode p (strategy st))))\<lparr>updatedAt := now\<rparr>"
  by (simp add: updateStrategyConfig_def getStrategyConfig_def)

lemma updateStrategyConfig_Prim:
  "strategy (snd (updateStrategyConfig sn ns now (Prim v) st)) = strategy st"
  by (simp add: updateStrategyConfig_def getStrategyConfig_def)

lemma applyMode_manual:
  "manualSeedId (applyMode p s) = manualSeedId s \<and> source (applyMode p s) = source s \<and>
   manualSeedName (applyMode p s) = manualSeedName s"
  by (simp add: applyMode_def split: jsval.splits)

lemma applyClearManual_cases:
  "(truthy (getProp p ''clearManual'') \<longrightarrow>
      manualSeedId (applyClearManual p s) = Finite 0 \<and> manualSeedName (applyClearManual p s) = [] \<and>
      source (applyClearManual p s) = ''auto'') \<and>
   (\<not> truthy (getProp p ''clearManual'') \<longrightarrow> applyClearManual p s = s)"
  by (simp add: applyClearManual_def)

lemma applyManualSeed_absent:
  "getProp p ''manualSeedId'' = JUndefined \<Longrightarrow> applyManualSeed sn ns p s = s"
  by (simp add: applyManualSeed_def strict_neq_def)

lemma applyManualSeed_not_positive:
  "getProp p ''manualSeedId'' \<noteq> JUndefined \<Longrightarrow>
   \<not> js_gt (num_or (ToNumber sn (getProp p ''manualSeedId'')) (Finite 0)) (Finite 0) \<Longrightarrow>
   applyManualSeed sn ns p s =
     s\<lparr>manualSeedId := num_or (ToNumber sn (getProp p ''manualSeedId'')) (Finite 0)\<rparr>"
  by (simp add: applyManualSeed_def strict_neq_def Let_def)

lemma applyManualSeed_positive:
  "getProp p ''manualSeedId'' \<noteq> JUndefined \<Longrightarrow>
   js_gt (num_or (ToNumber sn (getProp p ''manualSeedId'')) (Finite 0)) (Finite 0) \<Longrightarrow>
   applyManualSeed sn ns p s =
     s\<lparr>manualSeedId := num_or (ToNumber sn (getProp p ''manualSeedId'')) (Finite 0),
       source := ''manual'',
       manualSeedName :=
         ToString ns (js_or (js_or (getProp p ''manualSeedName'') (JStr (manualSeedName s)))
           (JStr []))\<rparr>"
  by (simp add: applyManualSeed_def strict_neq_def Let_def)

lemma zero_not_positive: "\<not> js_gt (Finite 0) (Finite 0)"
  by (simp add: js_gt_def)

lemma manual_invariant_update:
  assumes "js_gt (manualSeedId (strategy st)) (Finite 0) \<longrightarrow> source (strategy st) = ''manual''"
  shows "js_gt (manualSeedId (strategy (snd (updateStrategyConfig sn ns now patch st)))) (Finite 0) \<longrightarrow>
         source (strategy (snd (updateStrategyConfig sn ns now patch st))) = ''manual''"
proof (cases patch)
  case (Prim v)
  with assms show ?thesis by (simp add: updateStrategyConfig_Prim)
next
  case (Obj p)
  let ?s = "applyClearManual p (applyMode p (strategy st))"
  have cleared: "js_gt (manualSeedId ?s) (Finite 0) \<longrightarrow> source ?s = ''manual''"
    using assms applyMode_manual [of p "strategy st"]
      applyClearManual_cases [of p "applyMode p (strategy st)"] zero_not_positive
    by (cases "truthy (getProp p ''clearManual'')") auto
  have "js_gt (manualSeedId (applyManualSeed sn ns p ?s)) (Finite 0) \<longrightarrow>
        source (applyManualSeed sn ns p ?s) = ''manual''"
  proof (cases "getProp p ''manualSeedId'' = JUndefined")
    case True
    with cleared show ?thesis by (simp add: applyManualSeed_absent)
  next
    case False
    show ?thesis
    proof (cases "js_gt (num_or (ToNumber sn (getProp p ''manualSeedId'')) (Finite 0)) (Finite 0)")
      case True
      with False show ?thesis by (simp add: applyManualSeed_positive)
    next
      case nonpos: False
      with False show ?thesis by (simp add: applyManualSeed_not_positive)
    qed
  qed
  then show ?thesis by (simp add: Obj updateStrategyConfig_strategy)
qed

lemma manual_invariant_record:
  "manualSeedId (strategy (recordStrategyDecision now d st)) = manualSeedId (strategy st) \<and>
   source (strategy (recordStrategyDecision now d st)) = source (strategy st) \<and>
   manualSeedName (strategy (recordStrategyDecision now d st)) = manualSeedName (strategy st)"
  by (simp add: recordStrategyDecision_def)

lemma manual_invariant_step:
  "js_gt (manualSeedId (strategy st)) (Finite 0) \<longrightarrow> source (strategy st) = ''manual'' \<Longrightarrow>
   js_gt (manualSeedId (strategy (strategyStep sn ns c st))) (Finite 0) \<longrightarrow>
   source (strategy (strategyStep sn ns c st)) = ''manual''"
  using manual_invariant_update [of st sn ns] manual_invariant_record [of _ _ st]
  by (cases c) (simp_all add: strategyStep_def)

lemma manual_invariant_run:
  "js_gt (manualSeedId (strategy st)) (Finite 0) \<longrightarrow> source (strategy st) = ''manual'' \<Longrightarrow>
   js_gt (manualSeedId (strategy (strategyRun sn ns cs st))) (Finite 0) \<longrightarrow>
   source (strategy (strategyRun sn ns cs st)) = ''manual''"
  unfolding strategyRun_def
proof (induction cs arbitrary: st)
  case Nil
  then show ?case by simp
next
  case (Cons c cs)
  from Cons.IH [OF manual_invariant_step [OF Cons.prems]] show ?case by simp
qed

lemma manual_invariant_initial:
  "js_gt (manualSeedId (strategy initial_state)) (Finite 0) \<longrightarrow>
   source (strategy initial_state) = ''manual''"
  by (simp add: initial_state_def js_gt_def)

lemma clear_without_seed:
  assumes "truthy (getProp p ''clearManual'')"
      and "getProp p ''manualSeedId'' = JUndefined \<or>
           num_or (ToNumber sn (getProp p ''manualSeedId'')) (Finite 0) = Finite 0"
  shows "manualSeedId (strategy (snd (updateStrategyConfig sn ns now (Obj p) st))) = Finite 0 \<and>
         manualSeedName (strategy (snd (updateStrategyConfig sn ns now (Obj p) st))) = [] \<and>
         source (strategy (snd (updateStrategyConfig sn ns now (Obj p) st))) = ''auto''"
proof (cases "getProp p ''manualSeedId'' = JUndefined")
  case True
  with assms(1) applyClearManual_cases [of p "applyMode p (strategy st)"] show ?thesis
    by (simp add: updateStrategyConfig_strategy applyManualSeed_absent)
next
  case False
  with assms(2) have z: "num_or (ToNumber sn (getProp p ''manualSeedId'')) (Finite 0) = Finite 0"
    by simp
  with False assms(1) applyClearManual_cases [of p "applyMode p (strategy st)"] show ?thesis
    by (simp add: updateStrategyConfig_strategy applyManualSeed_not_positive zero_not_positive)
qed

lemma clear_with_nonpositive_seed:
  assumes "truthy (getProp p ''clearManual'')"
      and "getProp p ''manualSeedId'' \<noteq> JUndefined"
      and "\<not> js_gt (num_or (ToNumber sn (getProp p ''manualSeedId'')) (Finite 0)) (Finite 0)"
  shows "manualSeedId (strategy (snd (updateStrategyConfig sn ns now (Obj p) st))) =
           num_or (ToNumber sn (getProp p ''manualSeedId'')) (Finite 0) \<and>
         manualSeedName (strategy (snd (updateStrategyConfig sn ns now (Obj p) st))) = [] \<and>
         source (strategy (snd (updateStrategyConfig sn ns now (Obj p) st))) = ''auto''"
  using assms applyClearManual_cases [of p "applyMode p (strategy st)"]
  by (simp add: updateStrategyConfig_strategy applyManualSeed_not_positive)

text \<open>
  Claim C5, as the code has it. In every state reached from the initial one by
  \<^verbatim>\<open>updateStrategyConfig\<close> and \<^verbatim>\<open>recordStrategyDecision\<close> calls, \<^verbatim>\<open>manualSeedId > 0\<close>
  implies \<^verbatim>\<open>source == "manual"\<close>. A patch with a truthy \<^verbatim>\<open>clearManual\<close> whose
  \<^verbatim>\<open>manualSeedId\<close> is absent or coerces to 0 leaves \<^verbatim>\<open>manualSeedId = 0\<close>,
  \<^verbatim>\<open>manualSeedName = ""\<close> and \<^verbatim>\<open>source = "auto"\<close>. With a provided \<^verbatim>\<open>manualSeedId\<close> that
  is not positive, name and source are reset the same and \<^verbatim>\<open>manualSeedId\<close> is the coerced
  value (a negative number stays).
\<close>

theorem manual_implies_source:
  assumes "s' = strategy (snd (updateStrategyConfig sn ns now (Obj p) st))"
      and "sid = num_or (ToNumber sn (getProp p ''manualSeedId'')) (Finite 0)"
  shows "(js_gt (manualSeedId (strategy (strategyRun sn ns cs initial_state))) (Finite 0) \<longrightarrow>
            source (strategy (strategyRun sn ns cs initial_state)) = ''manual'') \<and>
         (truthy (getProp p ''clearManual'') \<and>
          (getProp p ''manualSeedId'' = JUndefined \<or> sid = Finite 0) \<longrightarrow>
            manualSeedId s' = Finite 0 \<and> manualSeedName s' = [] \<and> source s' = ''auto'') \<and>
         (truthy (getProp p ''clearManual'') \<and> getProp p ''manualSeedId'' \<noteq> JUndefined \<and>
          \<not> js_gt sid (Finite 0) \<longrightarrow>
            manualSeedId s' = sid \<and> manualSeedName s' = [] \<and> source s' = ''auto'')"
  using manual_invariant_run [OF manual_invariant_initial, of sn ns cs]
    clear_without_seed [of p sn ns now st] clear_with_nonpositive_seed [of p sn ns now st]
  unfolding assms by blast

lemma seed7_state:
  "strategy (snd (updateStrategyConfig sn ns now (Obj patchSeed7) initial_state)) =
     \<lparr>mode = ''normalFert'', manualSeedId = Finite 7, manualSeedName = ''X'', source = ''manual'',
      updatedAt = now, lastDecision = None\<rparr>"
  by (simp add: updateStrategyConfig_strategy applyManualSeed_def applyClearManual_def applyMode_def
      patchSeed7_def initial_state_def getProp_def strict_neq_def num_or_def js_gt_def js_or_def Let_def)

text \<open>
  Claim C5 as stated fails at the patch \<^verbatim>\<open>{clearManual:true, manualSeedId:-5}\<close>:
  \<^verbatim>\<open>clearManual\<close> is truthy and the patch has no positive \<^verbatim>\<open>manualSeedId\<close>, yet
  \<^verbatim>\<open>manualSeedId\<close> is -5 afterwards, not 0.
\<close>

theorem manual_implies_source_counterexample:
  "truthy (getProp patchClearNegative ''clearManual'') \<and>
   \<not> js_gt (ToNumber exampleStrToNum (getProp patchClearNegative ''manualSeedId'')) (Finite 0) \<and>
   manualSeedId (strategy (snd (updateStrategyConfig exampleStrToNum exampleNumToStr (Finite 1000)
      (Obj patchClearNegative) initial_state))) = Finite (- 5) \<and>
   manualSeedId (strategy (snd (updateStrategyConfig exampleStrToNum exampleNumToStr (Finite 1000)
      (Obj patchClearNegative) initial_state))) \<noteq> Finite 0"
  by (simp add: updateStrategyConfig_strategy applyManualSeed_def applyClearManual_def applyMode_def
      patchClearNegative_def initial_state_def getProp_def strict_neq_def num_or_def js_gt_def Let_def)

text \<open>
  The example of the specification: \<^verbatim>\<open>{manualSeedId:7, manualSeedName:"X"}\<close> gives a positive
  \<^verbatim>\<open>manualSeedId\<close> and the source \<^verbatim>\<open>"manual"\<close>; \<^verbatim>\<open>{clearManual:true}\<close> afterwards gives
  \<^verbatim>\<open>manualSeedId = 0\<close> and the source \<^verbatim>\<open>"auto"\<close>, and so does
  \<^verbatim>\<open>{clearManual:true, manualSeedId:-5}\<close> for the source.
\<close>

theorem manual_implies_source_witness:
  "js_gt (manualSeedId (strategy (strategyRun exampleStrToNum exampleNumToStr
       [Update (Finite 1000) (Obj patchSeed7)] initial_state))) (Finite 0) \<and>
   source (strategy (strategyRun exampleStrToNum exampleNumToStr
       [Update (Finite 1000) (Obj patchSeed7)] initial_state)) = ''manual'' \<and>
   truthy (getProp patchClear ''clearManual'') \<and>
   getProp patchClear ''manualSeedId'' = JUndefined \<and>
   manualSeedId (strategy (snd (updateStrategyConfig exampleStrToNum exampleNumToStr (Finite 2000)
      (Obj patchClear)
      (snd (updateStrategyConfig exampleStrToNum exampleNumToStr (Finite 1000) (Obj patchSeed7)
         initial_state))))) = Finite 0 \<and>
   source (strategy (snd (updateStrategyConfig exampleStrToNum exampleNumToStr (Finite 2000)
      (Obj patchClear)
      (snd (updateStrategyConfig exampleStrToNum exampleNumToStr (Finite 1000) (Obj patchSeed7)
         initial_state))))) = ''auto'' \<and>
   truthy (getProp patchClearNegative ''clearManual'') \<and>
   getProp patchClearNegative ''manualSeedId'' \<noteq> JUndefined \<and>
   \<not> js_gt (num_or (ToNumber exampleStrToNum (getProp patchClearNegative ''manualSeedId''))
        (Finite 0)) (Finite 0) \<and>
   source (strategy (snd (updateStrategyConfig exampleStrToNum exampleNumToStr (Finite 2000)
      (Obj patchClearNegative)
      (snd (updateStrategyConfig exampleStrToNum exampleNumToStr (Finite 1000) (Obj patchSeed7)
         initial_state))))) = ''auto''"
proof -
  have g: "js_gt (manualSeedId (strategy (strategyRun exampleStrToNum exampleNumToStr
       [Update (Finite 1000) (Obj patchSeed7)] initial_state))) (Finite 0)"
    by (simp add: strategyRun_def strategyStep_def seed7_state js_gt_def)
  have t: "truthy (getProp patchClear ''clearManual'')"
    by (simp add: patchClear_def getProp_def)
  have u: "getProp patchClear ''manualSeedId'' = JUndefined"
    by (simp add: patchClear_def getProp_def)
  have t2: "truthy (getProp patchClearNegative ''clearManual'')"
    by (simp add: patchClearNegative_def getProp_def)
  have u2: "getProp patchClearNegative ''manualSeedId'' \<noteq> JUndefined"
    by (simp add: patchClearNegative_def getProp_def)
  have n2: "\<not> js_gt (num_or (ToNumber exampleStrToNum (getProp patchClearNegative ''manualSeedId''))
        (Finite 0)) (Finite 0)"
    by (simp add: patchClearNegative_def getProp_def num_or_def js_gt_def)
  note inst = manual_implies_source [where sn = exampleStrToNum and ns = exampleNumToStr
      and now = "Finite 2000" and p = patchClear
      and st = "snd (updateStrategyConfig exampleStrToNum exampleNumToStr (Finite 1000)
         (Obj patchSeed7) initial_state)"
      and cs = "[Update (Finite 1000) (Obj patchSeed7)]", OF refl refl]
  note inst2 = manual_implies_source [where sn = exampleStrToNum and ns = exampleNumToStr
      and now = "Finite 2000" and p = patchClearNegative
      and st = "snd (updateStrategyConfig exampleStrToNum exampleNumToStr (Finite 1000)
         (Obj patchSeed7) initial_state)"
      and cs = "[]", OF refl refl, THEN conjunct2, THEN conjunct2]
  from inst inst2 g t u t2 u2 n2 show ?thesis by blast
qed

section \<open>Validation of the settings\<close>

lemma max_one_int: "Math_max (Finite 1) (Finite (of_int k)) = Finite (of_int (max 1 k))"
  by (simp add: Math_max_def max_def)

lemma max_one_floor:
  "Math_max (Finite 1) (Math_floor (Finite x)) = Finite (of_int (max 1 \<lfloor>x\<rfloor>))"
  unfolding Math_floor_def jsnum.case by (rule max_one_int)

lemma settings_farm_error:
  "provided patch ''farmIntervalSec'' \<Longrightarrow>
   invalidInterval (ToNumber sn (patchProp patch ''farmIntervalSec'')) \<Longrightarrow>
   updateRuntimeSettings rnd sn patch cfg = (Inl invalid_farm_interval, cfg)"
  by (simp add: updateRuntimeSettings_def Let_def)

lemma settings_friend_error:
  "\<not> (provided patch ''farmIntervalSec'' \<and>
      invalidInterval (ToNumber sn (patchProp patch ''farmIntervalSec''))) \<Longrightarrow>
   provided patch ''friendIntervalSec'' \<Longrightarrow>
   invalidInterval (ToNumber sn (patchProp patch ''friendIntervalSec'')) \<Longrightarrow>
   updateRuntimeSettings rnd sn patch cfg = (Inl invalid_friend_interval, cfg)"
  by (simp add: updateRuntimeSettings_def Let_def)

lemma settings_failure:
  "fst (updateRuntimeSettings rnd sn patch cfg) = Inl e \<Longrightarrow>
   snd (updateRuntimeSettings rnd sn patch cfg) = cfg \<and>
   ((provided patch ''farmIntervalSec'' \<and>
       invalidInterval (ToNumber sn (patchProp patch ''farmIntervalSec''))) \<or>
    (provided patch ''friendIntervalSec'' \<and>
       invalidInterval (ToNumber sn (patchProp patch ''friendIntervalSec''))))"
  by (auto simp: updateRuntimeSettings_def Let_def split: if_splits)

lemma settings_success:
  assumes "fst (updateRuntimeSettings rnd sn patch cfg) = Inr nxt"
  shows "farmIntervalSec nxt =
           (if provided patch ''farmIntervalSec''
            then Math_max (Finite 1) (Math_floor (ToNumber sn (patchProp patch ''farmIntervalSec'')))
            else farmIntervalSec (getRuntimeSettings rnd cfg)) \<and>
         friendIntervalSec nxt =
           (if provided patch ''friendIntervalSec''
            then Math_max (Finite 1)
                   (Math_floor (ToNumber sn (patchProp patch ''friendIntervalSec'')))
            else friendIntervalSec (getRuntimeSettings rnd cfg)) \<and>
         snd (updateRuntimeSettings rnd sn patch cfg) =
           \<lparr>farmCheckInterval = js_mul rnd (farmIntervalSec nxt) (Finite 1000),
            friendCheckInterval = js_mul rnd (friendIntervalSec nxt) (Finite 1000)\<rparr>"
  using assms
  by (auto simp: updateRuntimeSettings_def Let_def split: if_splits)

text \<open>
  Claim C6, as the code has it. Let \<open>farm\<close> and \<open>friend\<close> be \<^verbatim>\<open>Number(...)\<close> of the two
  properties of the patch; a value is invalid when it is not finite or not greater than 0, and
  a property is provided when it is not \<^verbatim>\<open>undefined\<close>. The farm interval is checked first: a
  provided invalid \<^verbatim>\<open>farmIntervalSec\<close> fails with \<^verbatim>\<open>invalid_farm_interval\<close>; a provided
  invalid \<^verbatim>\<open>friendIntervalSec\<close> fails with \<^verbatim>\<open>invalid_friend_interval\<close> when the farm
  interval is absent or valid. A failure leaves the configuration (hence the settings read from
  it) unchanged, and there is no other failure. On success a provided value \<open>x\<close> is stored in
  the returned settings as the integer \<open>max 1 \<lfloor>x\<rfloor>\<close>, a field that is not provided keeps in
  the returned settings the value the settings had, and both fields of the returned settings
  are written back to the configuration times 1000 (a product of doubles).
\<close>

theorem settings_validation:
  assumes "res = updateRuntimeSettings rnd sn patch cfg"
      and "farm = ToNumber sn (patchProp patch ''farmIntervalSec'')"
      and "friend = ToNumber sn (patchProp patch ''friendIntervalSec'')"
  shows "(provided patch ''farmIntervalSec'' \<and> invalidInterval farm \<longrightarrow>
            res = (Inl invalid_farm_interval, cfg)) \<and>
         (\<not> (provided patch ''farmIntervalSec'' \<and> invalidInterval farm) \<and>
          provided patch ''friendIntervalSec'' \<and> invalidInterval friend \<longrightarrow>
            res = (Inl invalid_friend_interval, cfg)) \<and>
         (\<forall>e. fst res = Inl e \<longrightarrow>
            snd res = cfg \<and>
            ((provided patch ''farmIntervalSec'' \<and> invalidInterval farm) \<or>
             (provided patch ''friendIntervalSec'' \<and> invalidInterval friend))) \<and>
         (\<forall>nxt. fst res = Inr nxt \<longrightarrow>
            (\<forall>x. provided patch ''farmIntervalSec'' \<and> farm = Finite x \<longrightarrow>
               farmIntervalSec nxt = Finite (of_int (max 1 \<lfloor>x\<rfloor>))) \<and>
            (\<forall>x. provided patch ''friendIntervalSec'' \<and> friend = Finite x \<longrightarrow>
               friendIntervalSec nxt = Finite (of_int (max 1 \<lfloor>x\<rfloor>))) \<and>
            (\<not> provided patch ''farmIntervalSec'' \<longrightarrow>
               farmIntervalSec nxt = farmIntervalSec (getRuntimeSettings rnd cfg)) \<and>
            (\<not> provided patch ''friendIntervalSec'' \<longrightarrow>
               friendIntervalSec nxt = friendIntervalSec (getRuntimeSettings rnd cfg)) \<and>
            snd res =
              \<lparr>farmCheckInterval = js_mul rnd (farmIntervalSec nxt) (Finite 1000),
               friendCheckInterval = js_mul rnd (friendIntervalSec nxt) (Finite 1000)\<rparr>)"
proof -
  have a: "provided patch ''farmIntervalSec'' \<and> invalidInterval farm \<longrightarrow>
            res = (Inl invalid_farm_interval, cfg)"
    using assms settings_farm_error by blast
  have b: "\<not> (provided patch ''farmIntervalSec'' \<and> invalidInterval farm) \<and>
          provided patch ''friendIntervalSec'' \<and> invalidInterval friend \<longrightarrow>
            res = (Inl invalid_friend_interval, cfg)"
    using assms settings_friend_error by blast
  have c: "\<forall>e. fst res = Inl e \<longrightarrow>
            snd res = cfg \<and>
            ((provided patch ''farmIntervalSec'' \<and> invalidInterval farm) \<or>
             (provided patch ''friendIntervalSec'' \<and> invalidInterval friend))"
    using assms settings_failure by blast
  have d: "(\<forall>x. provided patch ''farmIntervalSec'' \<and> farm = Finite x \<longrightarrow>
               farmIntervalSec nxt = Finite (of_int (max 1 \<lfloor>x\<rfloor>))) \<and>
            (\<forall>x. provided patch ''friendIntervalSec'' \<and> friend = Finite x \<longrightarrow>
               friendIntervalSec nxt = Finite (of_int (max 1 \<lfloor>x\<rfloor>))) \<and>
            (\<not> provided patch ''farmIntervalSec'' \<longrightarrow>
               farmIntervalSec nxt = farmIntervalSec (getRuntimeSettings rnd cfg)) \<and>
            (\<not> provided patch ''friendIntervalSec'' \<longrightarrow>
               friendIntervalSec nxt = friendIntervalSec (getRuntimeSettings rnd cfg)) \<and>
            snd res =
              \<lparr>farmCheckInterval = js_mul rnd (farmIntervalSec nxt) (Finite 1000),
               friendCheckInterval = js_mul rnd (friendIntervalSec nxt) (Finite 1000)\<rparr>"
    if ok: "fst res = Inr nxt" for nxt
  proof -
    have ok': "fst (updateRuntimeSettings rnd sn patch cfg) = Inr nxt"
      using ok assms(1) by simp
    note s = settings_success [OF ok']
    from s show ?thesis
      unfolding assms by (simp add: max_one_floor)
  qed
  from a b c d show ?thesis by blast
qed

lemma both_negative_result:
  "provided (Obj patchBothNegative) ''friendIntervalSec'' \<and>
   invalidInterval (ToNumber sn (patchProp (Obj patchBothNegative) ''friendIntervalSec'')) \<and>
   updateRuntimeSettings rnd sn (Obj patchBothNegative) cfg = (Inl invalid_farm_interval, cfg)"
  by (simp add: updateRuntimeSettings_def Let_def provided_def patchProp_def patchBothNegative_def
      getProp_def strict_neq_def invalidInterval_def)

lemma uneven_settings:
  "getRuntimeSettings rnd unevenConfig = \<lparr>farmIntervalSec = Finite 5, friendIntervalSec = Finite 2\<rparr>"
  by (simp add: getRuntimeSettings_def unevenConfig_def intervalSec_def num_or_def Math_max_def
      Math_round_def roundTo_numeral roundTo_numeral_half floor_rat_numeral_quotient)

lemma uneven_result:
  "updateRuntimeSettings rnd sn (Obj patchFarmSeven) unevenConfig =
     (Inr \<lparr>farmIntervalSec = Finite 7, friendIntervalSec = Finite 2\<rparr>,
      \<lparr>farmCheckInterval = Finite 7000, friendCheckInterval = Finite 2000\<rparr>)"
  unfolding updateRuntimeSettings_def Let_def uneven_settings
  by (simp add: provided_def patchProp_def patchFarmSeven_def getProp_def strict_neq_def
      invalidInterval_def Math_max_def Math_floor_def unevenConfig_def roundTo_numeral)

text \<open>
  Claim C6 as stated fails twice. At the patch \<^verbatim>\<open>{farmIntervalSec:-1, friendIntervalSec:-1}\<close>
  the patch provides a \<^verbatim>\<open>friendIntervalSec\<close> that is not a finite number greater than 0, and
  the call fails with \<^verbatim>\<open>invalid_farm_interval\<close>, not with \<^verbatim>\<open>invalid_friend_interval\<close>. At the
  partial patch \<^verbatim>\<open>{farmIntervalSec:7}\<close> on a configuration whose friend interval is 1500
  milliseconds, the other field is not left untouched in the shared configuration: the friend
  interval is rewritten to 2000 milliseconds (1500 / 1000 is 1.5, which \<^verbatim>\<open>Math.round\<close> takes
  to 2).
\<close>

theorem settings_validation_counterexample:
  "provided (Obj patchBothNegative) ''friendIntervalSec'' \<and>
   invalidInterval
     (ToNumber exampleStrToNum (patchProp (Obj patchBothNegative) ''friendIntervalSec'')) \<and>
   updateRuntimeSettings exactRounding exampleStrToNum (Obj patchBothNegative) exampleConfig =
     (Inl invalid_farm_interval, exampleConfig) \<and>
   fst (updateRuntimeSettings exactRounding exampleStrToNum (Obj patchBothNegative)
      exampleConfig) \<noteq> Inl invalid_friend_interval \<and>
   \<not> provided (Obj patchFarmSeven) ''friendIntervalSec'' \<and>
   friendCheckInterval unevenConfig = Finite 1500 \<and>
   friendCheckInterval (snd (updateRuntimeSettings exactRounding exampleStrToNum
      (Obj patchFarmSeven) unevenConfig)) = Finite 2000"
proof -
  have np: "\<not> provided (Obj patchFarmSeven) ''friendIntervalSec''"
    by (simp add: provided_def patchFarmSeven_def getProp_def strict_neq_def)
  have before: "friendCheckInterval unevenConfig = Finite 1500"
    by (simp add: unevenConfig_def)
  from both_negative_result [of exampleStrToNum exactRounding exampleConfig] np before
  show ?thesis by (simp add: uneven_result)
qed

lemma example_settings:
  "getRuntimeSettings rnd exampleConfig =
     \<lparr>farmIntervalSec = Finite 5, friendIntervalSec = Finite 10\<rparr>"
  by (simp add: getRuntimeSettings_def exampleConfig_def intervalSec_def num_or_def Math_max_def
      Math_round_def roundTo_numeral floor_rat_numeral_quotient)

lemma fraction_result:
  "updateRuntimeSettings rnd sn (Obj patchFriendFraction) exampleConfig =
     (Inr \<lparr>farmIntervalSec = Finite 5, friendIntervalSec = Finite 2\<rparr>,
      \<lparr>farmCheckInterval = Finite 5000, friendCheckInterval = Finite 2000\<rparr>)"
  unfolding updateRuntimeSettings_def Let_def example_settings
  by (simp add: provided_def patchProp_def patchFriendFraction_def
      getProp_def strict_neq_def invalidInterval_def Math_max_def Math_floor_def
      floor_rat_numeral_quotient exampleConfig_def roundTo_numeral)

text \<open>
  The examples of the specification on a configuration of 5 and 10 seconds:
  \<^verbatim>\<open>{farmIntervalSec:-1}\<close> and \<^verbatim>\<open>{friendIntervalSec:-1}\<close> fail, each with its own error,
  and leave the configuration as it is; \<^verbatim>\<open>{friendIntervalSec:2.7}\<close> stores 2 (2000
  milliseconds) and leaves the farm interval of the settings at 5.
\<close>

theorem settings_validation_witness:
  "provided (Obj patchFarmNegative) ''farmIntervalSec'' \<and>
   invalidInterval
     (ToNumber exampleStrToNum (patchProp (Obj patchFarmNegative) ''farmIntervalSec'')) \<and>
   updateRuntimeSettings exactRounding exampleStrToNum (Obj patchFarmNegative) exampleConfig =
     (Inl invalid_farm_interval, exampleConfig) \<and>
   \<not> provided (Obj patchFriendNegative) ''farmIntervalSec'' \<and>
   provided (Obj patchFriendNegative) ''friendIntervalSec'' \<and>
   invalidInterval
     (ToNumber exampleStrToNum (patchProp (Obj patchFriendNegative) ''friendIntervalSec'')) \<and>
   updateRuntimeSettings exactRounding exampleStrToNum (Obj patchFriendNegative) exampleConfig =
     (Inl invalid_friend_interval, exampleConfig) \<and>
   \<not> provided (Obj patchFriendFraction) ''farmIntervalSec'' \<and>
   fst (updateRuntimeSettings exactRounding exampleStrToNum (Obj patchFriendFraction)
      exampleConfig) = Inr \<lparr>farmIntervalSec = Finite 5, friendIntervalSec = Finite 2\<rparr> \<and>
   snd (updateRuntimeSettings exactRounding exampleStrToNum (Obj patchFriendFraction)
      exampleConfig) = \<lparr>farmCheckInterval = Finite 5000, friendCheckInterval = Finite 2000\<rparr> \<and>
   farmIntervalSec (getRuntimeSettings exactRounding exampleConfig) = Finite 5"
proof -
  have p: "provided (Obj patchFarmNegative) ''farmIntervalSec''"
    by (simp add: provided_def patchFarmNegative_def getProp_def strict_neq_def)
  have i: "invalidInterval
      (ToNumber exampleStrToNum (patchProp (Obj patchFarmNegative) ''farmIntervalSec''))"
    by (simp add: patchProp_def patchFarmNegative_def getProp_def invalidInterval_def)
  note farm_rule = settings_validation [where rnd = exactRounding and sn = exampleStrToNum
      and patch = "Obj patchFarmNegative" and cfg = exampleConfig, OF refl refl refl,
      THEN conjunct1]
  have c: "updateRuntimeSettings exactRounding exampleStrToNum (Obj patchFarmNegative)
      exampleConfig = (Inl invalid_farm_interval, exampleConfig)"
    using farm_rule p i by blast
  have np: "\<not> provided (Obj patchFriendNegative) ''farmIntervalSec''"
    by (simp add: provided_def patchFriendNegative_def getProp_def strict_neq_def)
  have p2: "provided (Obj patchFriendNegative) ''friendIntervalSec''"
    by (simp add: provided_def patchFriendNegative_def getProp_def strict_neq_def)
  have i2: "invalidInterval
      (ToNumber exampleStrToNum (patchProp (Obj patchFriendNegative) ''friendIntervalSec''))"
    by (simp add: patchProp_def patchFriendNegative_def getProp_def invalidInterval_def)
  note friend_rule = settings_validation [where rnd = exactRounding and sn = exampleStrToNum
      and patch = "Obj patchFriendNegative" and cfg = exampleConfig, OF refl refl refl,
      THEN conjunct2, THEN conjunct1]
  have c2: "updateRuntimeSettings exactRounding exampleStrToNum (Obj patchFriendNegative)
      exampleConfig = (Inl invalid_friend_interval, exampleConfig)"
    using friend_rule np p2 i2 by blast
  note d = fraction_result [of exactRounding exampleStrToNum]
  have np3: "\<not> provided (Obj patchFriendFraction) ''farmIntervalSec''"
    by (simp add: provided_def patchFriendFraction_def getProp_def strict_neq_def)
  have ok: "fst (updateRuntimeSettings exactRounding exampleStrToNum (Obj patchFriendFraction)
      exampleConfig) = Inr \<lparr>farmIntervalSec = Finite 5, friendIntervalSec = Finite 2\<rparr>"
    by (simp add: d)
  note success_rule = settings_validation [where rnd = exactRounding and sn = exampleStrToNum
      and patch = "Obj patchFriendFraction" and cfg = exampleConfig, OF refl refl refl,
      THEN conjunct2, THEN conjunct2, THEN conjunct2, THEN spec, THEN mp, OF ok]
  have f: "farmIntervalSec (getRuntimeSettings exactRounding exampleConfig) = Finite 5"
    using success_rule np3 by simp
  have w: "snd (updateRuntimeSettings exactRounding exampleStrToNum (Obj patchFriendFraction)
      exampleConfig) = \<lparr>farmCheckInterval = Finite 5000, friendCheckInterval = Finite 2000\<rparr>"
    by (simp add: d)
  from p i c np p2 i2 c2 np3 ok w f show ?thesis by blast
qed

section \<open>A seed id of zero\<close>

lemma seed_zero_unchanged:
  assumes "\<not> truthy (getProp p ''clearManual'')"
      and "getProp p ''manualSeedId'' \<noteq> JUndefined"
      and "num_or (ToNumber sn (getProp p ''manualSeedId'')) (Finite 0) = Finite 0"
  shows "manualSeedId (strategy (snd (updateStrategyConfig sn ns now (Obj p) st))) = Finite 0 \<and>
         source (strategy (snd (updateStrategyConfig sn ns now (Obj p) st))) = source (strategy st) \<and>
         manualSeedName (strategy (snd (updateStrategyConfig sn ns now (Obj p) st))) =
           manualSeedName (strategy st)"
  using assms applyClearManual_cases [of p "applyMode p (strategy st)"]
    applyMode_manual [of p "strategy st"]
  by (simp add: updateStrategyConfig_strategy applyManualSeed_not_positive zero_not_positive)

lemma seed0_after_seed7:
  "strategy (strategyRun sn ns [Update now (Obj patchSeed7), Update now (Obj patchSeed0)]
      initial_state) =
     \<lparr>mode = ''normalFert'', manualSeedId = Finite 0, manualSeedName = ''X'', source = ''manual'',
      updatedAt = now, lastDecision = None\<rparr>"
proof -
  have "strategy (strategyRun sn ns [Update now (Obj patchSeed7), Update now (Obj patchSeed0)]
      initial_state) =
    (applyManualSeed sn ns patchSeed0 (applyClearManual patchSeed0 (applyMode patchSeed0
       (strategy (snd (updateStrategyConfig sn ns now (Obj patchSeed7) initial_state))))))
       \<lparr>updatedAt := now\<rparr>"
    by (simp add: strategyRun_def strategyStep_def updateStrategyConfig_strategy [of sn ns now patchSeed0])
  also have "\<dots> = \<lparr>mode = ''normalFert'', manualSeedId = Finite 0, manualSeedName = ''X'',
      source = ''manual'', updatedAt = now, lastDecision = None\<rparr>"
    unfolding seed7_state
    by (simp add: applyManualSeed_def applyClearManual_def applyMode_def patchSeed0_def getProp_def
      strict_neq_def num_or_def js_gt_def Let_def)
  finally show ?thesis .
qed

lemma source_without_clear:
  assumes "\<not> truthy (getProp q ''clearManual'')"
  shows "source (strategy (snd (updateStrategyConfig sn ns now (Obj q) st))) = source (strategy st) \<or>
         source (strategy (snd (updateStrategyConfig sn ns now (Obj q) st))) = ''manual''"
proof -
  let ?s = "applyClearManual q (applyMode q (strategy st))"
  have s: "source ?s = source (strategy st)"
    using assms applyClearManual_cases [of q "applyMode q (strategy st)"]
      applyMode_manual [of q "strategy st"] by simp
  show ?thesis
  proof (cases "getProp q ''manualSeedId'' = JUndefined")
    case True
    with s show ?thesis by (simp add: updateStrategyConfig_strategy applyManualSeed_absent)
  next
    case False
    then show ?thesis
      using s
      by (cases "js_gt (num_or (ToNumber sn (getProp q ''manualSeedId'')) (Finite 0)) (Finite 0)")
        (simp_all add: updateStrategyConfig_strategy applyManualSeed_positive
          applyManualSeed_not_positive)
  qed
qed

lemma auto_without_clear:
  assumes "\<not> truthy (getProp q ''clearManual'')"
      and "source (strategy (snd (updateStrategyConfig sn ns now (Obj q) st))) = ''auto''"
  shows "source (strategy st) = ''auto'' \<and>
         manualSeedName (strategy (snd (updateStrategyConfig sn ns now (Obj q) st))) =
           manualSeedName (strategy st)"
proof -
  let ?s = "applyClearManual q (applyMode q (strategy st))"
  have s: "source ?s = source (strategy st) \<and> manualSeedName ?s = manualSeedName (strategy st)"
    using assms(1) applyClearManual_cases [of q "applyMode q (strategy st)"]
      applyMode_manual [of q "strategy st"] by simp
  show ?thesis
  proof (cases "getProp q ''manualSeedId'' = JUndefined")
    case True
    with s assms(2) show ?thesis
      by (simp add: updateStrategyConfig_strategy applyManualSeed_absent)
  next
    case False
    show ?thesis
    proof (cases "js_gt (num_or (ToNumber sn (getProp q ''manualSeedId'')) (Finite 0)) (Finite 0)")
      case True
      with False assms(2) show ?thesis
        by (simp add: updateStrategyConfig_strategy applyManualSeed_positive)
    next
      case nonpos: False
      with False s assms(2) show ?thesis
        by (simp add: updateStrategyConfig_strategy applyManualSeed_not_positive)
    qed
  qed
qed

text \<open>
  Claim C10. A patch that provides a \<^verbatim>\<open>manualSeedId\<close> coercing to 0 and whose
  \<^verbatim>\<open>clearManual\<close> is not truthy sets \<^verbatim>\<open>manualSeedId\<close> to 0 and leaves \<^verbatim>\<open>source\<close> and
  \<^verbatim>\<open>manualSeedName\<close> as they were. The state can end with \<^verbatim>\<open>source == "manual"\<close> and
  \<^verbatim>\<open>manualSeedId == 0\<close>: \<^verbatim>\<open>{manualSeedId:7, manualSeedName:"X"}\<close> followed by
  \<^verbatim>\<open>{manualSeedId:0}\<close> does it. Only a patch with a truthy \<^verbatim>\<open>clearManual\<close> resets the
  source to \<^verbatim>\<open>"auto"\<close> and the name: without it, the source is \<^verbatim>\<open>"auto"\<close> afterwards only if
  it was before, and then \<^verbatim>\<open>manualSeedName\<close> is what it was. (A patch with a positive
  \<^verbatim>\<open>manualSeedId\<close> writes the name, whatever it converts to, together with the source
  \<^verbatim>\<open>"manual"\<close>.)
\<close>

theorem seed_zero_keeps_source:
  "(\<not> truthy (getProp p ''clearManual'') \<and> getProp p ''manualSeedId'' \<noteq> JUndefined \<and>
    num_or (ToNumber sn (getProp p ''manualSeedId'')) (Finite 0) = Finite 0 \<longrightarrow>
      manualSeedId (strategy (snd (updateStrategyConfig sn ns now (Obj p) st))) = Finite 0 \<and>
      source (strategy (snd (updateStrategyConfig sn ns now (Obj p) st))) = source (strategy st) \<and>
      manualSeedName (strategy (snd (updateStrategyConfig sn ns now (Obj p) st))) =
        manualSeedName (strategy st)) \<and>
   source (strategy (strategyRun sn ns [Update now (Obj patchSeed7), Update now (Obj patchSeed0)]
      initial_state)) = ''manual'' \<and>
   manualSeedId (strategy (strategyRun sn ns [Update now (Obj patchSeed7), Update now (Obj patchSeed0)]
      initial_state)) = Finite 0 \<and>
   (\<not> truthy (getProp q ''clearManual'') \<and>
    source (strategy (snd (updateStrategyConfig sn ns now (Obj q) st))) = ''auto'' \<longrightarrow>
      source (strategy st) = ''auto'') \<and>
   (\<not> truthy (getProp q ''clearManual'') \<and>
    source (strategy (snd (updateStrategyConfig sn ns now (Obj q) st))) = ''auto'' \<longrightarrow>
      manualSeedName (strategy (snd (updateStrategyConfig sn ns now (Obj q) st))) =
        manualSeedName (strategy st))"
proof -
  have a: "\<not> truthy (getProp p ''clearManual'') \<and> getProp p ''manualSeedId'' \<noteq> JUndefined \<and>
    num_or (ToNumber sn (getProp p ''manualSeedId'')) (Finite 0) = Finite 0 \<longrightarrow>
      manualSeedId (strategy (snd (updateStrategyConfig sn ns now (Obj p) st))) = Finite 0 \<and>
      source (strategy (snd (updateStrategyConfig sn ns now (Obj p) st))) = source (strategy st) \<and>
      manualSeedName (strategy (snd (updateStrategyConfig sn ns now (Obj p) st))) =
        manualSeedName (strategy st)"
    using seed_zero_unchanged by blast
  have b: "source (strategy (strategyRun sn ns [Update now (Obj patchSeed7), Update now (Obj patchSeed0)]
      initial_state)) = ''manual'' \<and>
   manualSeedId (strategy (strategyRun sn ns [Update now (Obj patchSeed7), Update now (Obj patchSeed0)]
      initial_state)) = Finite 0"
    by (simp add: seed0_after_seed7)
  have c: "\<not> truthy (getProp q ''clearManual'') \<and>
    source (strategy (snd (updateStrategyConfig sn ns now (Obj q) st))) = ''auto'' \<longrightarrow>
      source (strategy st) = ''auto''"
    using source_without_clear [of q sn ns now st] by auto
  have d: "\<not> truthy (getProp q ''clearManual'') \<and>
    source (strategy (snd (updateStrategyConfig sn ns now (Obj q) st))) = ''auto'' \<longrightarrow>
      manualSeedName (strategy (snd (updateStrategyConfig sn ns now (Obj q) st))) =
        manualSeedName (strategy st)"
    using auto_without_clear [of q sn ns now st] by blast
  from a b c d show ?thesis by blast
qed

text \<open>
  The patch \<^verbatim>\<open>{manualSeedId:0}\<close> after \<^verbatim>\<open>{manualSeedId:7, manualSeedName:"X"}\<close>: the id is 0
  and the source is still \<^verbatim>\<open>"manual"\<close>. On the initial state the same patch leaves the source
  \<^verbatim>\<open>"auto"\<close> and the name empty, as they were.
\<close>

theorem seed_zero_keeps_source_witness:
  "\<not> truthy (getProp patchSeed0 ''clearManual'') \<and>
   getProp patchSeed0 ''manualSeedId'' \<noteq> JUndefined \<and>
   num_or (ToNumber exampleStrToNum (getProp patchSeed0 ''manualSeedId'')) (Finite 0) = Finite 0 \<and>
   source (strategy (snd (updateStrategyConfig exampleStrToNum exampleNumToStr (Finite 1000)
      (Obj patchSeed7) initial_state))) = ''manual'' \<and>
   manualSeedId (strategy (snd (updateStrategyConfig exampleStrToNum exampleNumToStr (Finite 2000)
      (Obj patchSeed0)
      (snd (updateStrategyConfig exampleStrToNum exampleNumToStr (Finite 1000) (Obj patchSeed7)
         initial_state))))) = Finite 0 \<and>
   source (strategy (snd (updateStrategyConfig exampleStrToNum exampleNumToStr (Finite 2000)
      (Obj patchSeed0)
      (snd (updateStrategyConfig exampleStrToNum exampleNumToStr (Finite 1000) (Obj patchSeed7)
         initial_state))))) = ''manual'' \<and>
   source (strategy (snd (updateStrategyConfig exampleStrToNum exampleNumToStr (Finite 2000)
      (Obj patchSeed0) initial_state))) = ''auto'' \<and>
   manualSeedName (strategy (snd (updateStrategyConfig exampleStrToNum exampleNumToStr (Finite 2000)
      (Obj patchSeed0) initial_state))) = [] \<and>
   source (strategy initial_state) = ''auto'' \<and>
   manualSeedName (strategy initial_state) = []"
proof -
  have c: "\<not> truthy (getProp patchSeed0 ''clearManual'')"
    by (simp add: patchSeed0_def getProp_def)
  have u: "getProp patchSeed0 ''manualSeedId'' \<noteq> JUndefined"
    by (simp add: patchSeed0_def getProp_def)
  have z: "num_or (ToNumber exampleStrToNum (getProp patchSeed0 ''manualSeedId'')) (Finite 0) = Finite 0"
    by (simp add: patchSeed0_def getProp_def num_or_def)
  have m: "source (strategy (snd (updateStrategyConfig exampleStrToNum exampleNumToStr (Finite 1000)
      (Obj patchSeed7) initial_state))) = ''manual''"
    by (simp add: seed7_state)
  have i: "source (strategy initial_state) = ''auto'' \<and> manualSeedName (strategy initial_state) = []"
    by (simp add: initial_state_def)
  note inst = seed_zero_keeps_source [where sn = exampleStrToNum and ns = exampleNumToStr
      and now = "Finite 2000" and p = patchSeed0
      and st = "snd (updateStrategyConfig exampleStrToNum exampleNumToStr (Finite 1000)
         (Obj patchSeed7) initial_state)", THEN conjunct1]
  note inst0 = seed_zero_keeps_source [where sn = exampleStrToNum and ns = exampleNumToStr
      and now = "Finite 2000" and p = patchSeed0 and st = initial_state, THEN conjunct1]
  from inst inst0 c u z m i show ?thesis by simp
qed

section \<open>Snapshots and the shared decision object\<close>

lemma storeOk_initial: "storeOk initial_state"
  by (simp add: storeOk_def initial_state_def)

lemma storeOk_getStrategyConfig: "storeOk st \<Longrightarrow> storeOk (snd (getStrategyConfig st))"
  by (auto simp: storeOk_def getStrategyConfig_def split: option.splits)

lemma lastDecision_update:
  "lastDecision (strategy (snd (updateStrategyConfig sn ns now patch st))) =
     lastDecision (strategy st)"
proof (cases patch)
  case (Prim v)
  then show ?thesis by (simp add: updateStrategyConfig_Prim)
next
  case (Obj p)
  have "lastDecision (applyManualSeed sn ns p (applyClearManual p (applyMode p s))) = lastDecision s"
    for s
    by (simp add: applyManualSeed_def applyClearManual_def applyMode_def Let_def
        split: jsval.splits)
  then show ?thesis by (simp add: Obj updateStrategyConfig_strategy)
qed

lemma nextAddr_update:
  "nextAddr (snd (updateStrategyConfig sn ns now patch st)) = Suc (nextAddr st)"
  by (cases patch) (simp_all add: updateStrategyConfig_def getStrategyConfig_def)

lemma storeOk_step: "storeOk st \<Longrightarrow> storeOk (strategyStep sn ns c st)"
proof (cases c)
  case (Update now patch)
  assume "storeOk st"
  then show ?thesis
    using lastDecision_update [of sn ns now patch st] nextAddr_update [of sn ns now patch st]
    by (auto simp: Update strategyStep_def storeOk_def split: option.splits)
next
  case (Record now d)
  then show ?thesis by (simp add: strategyStep_def storeOk_def recordStrategyDecision_def)
qed

lemma storeOk_run: "storeOk st \<Longrightarrow> storeOk (strategyRun sn ns cs st)"
  unfolding strategyRun_def
  by (induction cs arbitrary: st) (simp_all add: storeOk_step)

lemma snapshot_internal:
  "storeOk st \<Longrightarrow> internalDecision (snd (getStrategyConfig st)) = internalDecision st"
  by (auto simp: storeOk_def internalDecision_def getStrategyConfig_def split: option.splits)

lemma snapshot_object:
  "heap (snd (getStrategyConfig st)) (fst (getStrategyConfig st)) =
     Some (strategySnapshot (strategy st))"
  by (simp add: getStrategyConfig_def)

lemma assignProp_snapshot:
  "storeOk st \<Longrightarrow>
   strategy (assignProp (fst (getStrategyConfig st)) k v (snd (getStrategyConfig st))) = strategy st \<and>
   internalDecision (assignProp (fst (getStrategyConfig st)) k v (snd (getStrategyConfig st))) =
     internalDecision st"
  by (auto simp: storeOk_def internalDecision_def getStrategyConfig_def assignProp_def
      split: option.splits)

lemma snapshot_lastDecision:
  "strategySnapshot s ''lastDecision'' =
     Some (case lastDecision s of Some a \<Rightarrow> Ref a | None \<Rightarrow> Val JNull)"
  by (simp add: strategySnapshot_def)

lemma assignThrough_shared:
  assumes "storeOk st" and "lastDecision (strategy st) = Some a" and "heap st a = Some obj"
  shows "internalDecision
           (assignThroughLastDecision (fst (getStrategyConfig st)) k v (snd (getStrategyConfig st))) =
         Some (obj(k \<mapsto> v))"
proof -
  have ne: "a \<noteq> nextAddr st"
    using assms(1,2) by (simp add: storeOk_def)
  have through: "assignThroughLastDecision (fst (getStrategyConfig st)) k v (snd (getStrategyConfig st)) =
      assignProp a k v (snd (getStrategyConfig st))"
    using assms(2)
    by (simp add: assignThroughLastDecision_def snapshot_object snapshot_lastDecision)
  show ?thesis
    unfolding through using ne assms(2,3)
    by (simp add: assignProp_def getStrategyConfig_def internalDecision_def)
qed

lemma assignThrough_null:
  "lastDecision (strategy st) = None \<Longrightarrow>
   assignThroughLastDecision (fst (getStrategyConfig st)) k v (snd (getStrategyConfig st)) =
     snd (getStrategyConfig st)"
  by (simp add: assignThroughLastDecision_def snapshot_object snapshot_lastDecision)

text \<open>
  Claim C8, as the code has it. In a state whose \<^verbatim>\<open>lastDecision\<close> reference is allocated
  (every state reached from the initial one by calls of the strategy store is such a state),
  \<^verbatim>\<open>getStrategyConfig\<close> changes nothing of the strategy state and returns a new object \<open>r\<close>
  holding the snapshot. It is a shallow snapshot: an assignment to a property of \<open>r\<close> leaves
  the strategy state and the internal decision object unchanged; but the \<^verbatim>\<open>lastDecision\<close>
  property of \<open>r\<close> is a reference to the internal decision object itself, so an assignment
  through it is an assignment to the internal object. (When \<^verbatim>\<open>lastDecision\<close> is \<^verbatim>\<open>null\<close>
  there is nothing to assign through.)
\<close>

theorem snapshot_is_shallow:
  assumes "storeOk st" and "r = fst (getStrategyConfig st)" and "st' = snd (getStrategyConfig st)"
  shows "strategy st' = strategy st \<and> internalDecision st' = internalDecision st \<and>
         heap st' r = Some (strategySnapshot (strategy st)) \<and>
         strategy (assignProp r k v st') = strategy st \<and>
         internalDecision (assignProp r k v st') = internalDecision st \<and>
         (\<forall>a obj. lastDecision (strategy st) = Some a \<and> heap st a = Some obj \<longrightarrow>
            strategySnapshot (strategy st) ''lastDecision'' = Some (Ref a) \<and>
            internalDecision (assignThroughLastDecision r k v st') = Some (obj(k \<mapsto> v))) \<and>
         (lastDecision (strategy st) = None \<longrightarrow> assignThroughLastDecision r k v st' = st') \<and>
         storeOk (strategyRun sn ns cs initial_state)"
  unfolding assms(2,3)
  using assms(1) snapshot_internal [of st] assignProp_snapshot [of st k v]
    assignThrough_shared [of st _ _ k v] assignThrough_null [of st k v]
    storeOk_run [OF storeOk_initial, of sn ns cs]
  by (simp add: getStrategyConfig_strategy snapshot_object snapshot_lastDecision)

lemma decided_state:
  "lastDecision (strategy decided) = Some 0 \<and> nextAddr decided = 1 \<and>
   heap decided 0 = Some [''at'' \<mapsto> Val (JNum (Finite 1000)), ''seedId'' \<mapsto> Val (JNum (Finite 7))]"
  by (auto simp: decided_def recordStrategyDecision_def initial_state_def)

lemma storeOk_decided: "storeOk decided"
  by (simp add: storeOk_def decided_state)

text \<open>
  Claim C8 as stated fails after \<^verbatim>\<open>recordStrategyDecision({seedId:7})\<close>: the caller takes
  \<^verbatim>\<open>snapshot = getStrategyConfig()\<close> and assigns \<^verbatim>\<open>snapshot.lastDecision.seedId = 99\<close>;
  the module's own \<^verbatim>\<open>state.strategy.lastDecision.seedId\<close> is then 99, where it was 7.
\<close>

theorem snapshot_counterexample:
  "decisionProp decided ''seedId'' = Some (Val (JNum (Finite 7))) \<and>
   strategy (snd (getStrategyConfig decided)) = strategy decided \<and>
   decisionProp (snd (getStrategyConfig decided)) ''seedId'' = Some (Val (JNum (Finite 7))) \<and>
   decisionProp tampered ''seedId'' = Some (Val (JNum (Finite 99))) \<and>
   internalDecision tampered \<noteq> internalDecision decided"
proof -
  have d: "internalDecision decided =
      Some [''at'' \<mapsto> Val (JNum (Finite 1000)), ''seedId'' \<mapsto> Val (JNum (Finite 7))]"
    by (simp add: internalDecision_def decided_state)
  have t: "internalDecision tampered =
      Some ([''at'' \<mapsto> Val (JNum (Finite 1000)), ''seedId'' \<mapsto> Val (JNum (Finite 7))]
              (''seedId'' \<mapsto> Val (JNum (Finite 99))))"
    unfolding tampered_def
    using assignThrough_shared [OF storeOk_decided, of 0] decided_state by simp
  have p1: "decisionProp decided ''seedId'' = Some (Val (JNum (Finite 7)))"
    by (simp add: decisionProp_def d)
  have p2: "decisionProp (snd (getStrategyConfig decided)) ''seedId'' = Some (Val (JNum (Finite 7)))"
    by (simp add: decisionProp_def snapshot_internal [OF storeOk_decided] d)
  have p3: "decisionProp tampered ''seedId'' = Some (Val (JNum (Finite 99)))"
    by (simp add: decisionProp_def t)
  have ne: "internalDecision tampered \<noteq> internalDecision decided"
    using p1 p3 by (auto simp: decisionProp_def)
  from p1 p2 p3 ne show ?thesis by (simp add: getStrategyConfig_strategy)
qed

text \<open>
  After \<^verbatim>\<open>recordStrategyDecision({seedId:7})\<close> the caller assigns
  \<^verbatim>\<open>snapshot.mode = "noFert"\<close>: the strategy state, whose mode is \<^verbatim>\<open>"normalFert"\<close>, and the
  decision object are unchanged. The assignment \<^verbatim>\<open>snapshot.lastDecision.mode = "noFert"\<close>
  adds the property to the internal decision object.
\<close>

theorem snapshot_is_shallow_witness:
  "storeOk decided \<and>
   strategy (assignProp (fst (getStrategyConfig decided)) ''mode'' (Val (JStr ''noFert''))
      (snd (getStrategyConfig decided))) = strategy decided \<and>
   internalDecision (assignProp (fst (getStrategyConfig decided)) ''mode'' (Val (JStr ''noFert''))
      (snd (getStrategyConfig decided))) = internalDecision decided \<and>
   mode (strategy decided) = ''normalFert'' \<and>
   lastDecision (strategy decided) = Some 0 \<and>
   heap decided 0 =
     Some [''at'' \<mapsto> Val (JNum (Finite 1000)), ''seedId'' \<mapsto> Val (JNum (Finite 7))] \<and>
   internalDecision (assignThroughLastDecision (fst (getStrategyConfig decided)) ''mode''
      (Val (JStr ''noFert'')) (snd (getStrategyConfig decided))) =
     Some ([''at'' \<mapsto> Val (JNum (Finite 1000)), ''seedId'' \<mapsto> Val (JNum (Finite 7))]
             (''mode'' \<mapsto> Val (JStr ''noFert'')))"
proof -
  note inst = snapshot_is_shallow [OF storeOk_decided refl refl, of "''mode''" "Val (JStr ''noFert'')"]
  have m: "mode (strategy decided) = ''normalFert''"
    by (simp add: decided_def recordStrategyDecision_def initial_state_def)
  from inst storeOk_decided m decided_state show ?thesis by blast
qed

end
